(* ===== verification/Prelude.thy ===== *)
theory Prelude
  imports Main
    "HOL-Library.Multiset"
    "HOL-Library.Sublist"
    "HOL-Library.Char_ord"
    "HOL-Library.List_Lexorder"
    "HOL-Library.Option_ord"
    "HOL-Library.Product_Lexorder"
begin

text \<open>
  Shared vocabulary of the development: the Python builtins the sources call
  (substring test \<open>in\<close>, \<open>str.rstrip\<close>, \<open>str.split\<close> and \<open>str.join\<close>,
  truthiness of optional strings and of dynamically typed values, \<open>int(x)\<close>,
  \<open>list.remove\<close>), a fallible loop that
  stops at the first raise, and the generic lemmas on these that the component
  theories use. Python strings are \<open>string\<close>; Python's string order is
  code-point lexicographic, which is the order \<open>List_Lexorder\<close> and
  \<open>Char_ord\<close> give on \<open>char list\<close> (UTF-8 bytes sort in code-point order).
\<close>

section \<open>Substring test: \<open>needle in haystack\<close>\<close>

fun starts_with :: "string \<Rightarrow> string \<Rightarrow> bool" where
  "starts_with [] s = True"
| "starts_with (p # ps) [] = False"
| "starts_with (p # ps) (c # cs) = (p = c \<and> starts_with ps cs)"

fun py_in :: "string \<Rightarrow> string \<Rightarrow> bool" where
  "py_in p [] = (p = [])"
| "py_in p (c # cs) = (starts_with p (c # cs) \<or> py_in p cs)"

section \<open>\<open>str.rstrip(c)\<close>, \<open>str.split(c)\<close>, \<open>c.join(ws)\<close>\<close>

definition py_rstrip :: "char \<Rightarrow> string \<Rightarrow> string" where
  "py_rstrip c s = rev (dropWhile (\<lambda>x. x = c) (rev s))"

text \<open>
  \<open>s.split(c)\<close> with an explicit separator: one field per separator plus one, empty
  fields kept; never the empty list, so \<open>s.split(c)[-1]\<close> is \<open>last\<close>.
\<close>

fun py_split :: "char \<Rightarrow> string \<Rightarrow> string list" where
  "py_split c [] = [[]]"
| "py_split c (x # xs) =
     (if x = c then [] # py_split c xs
      else (case py_split c xs of [] \<Rightarrow> [[x]] | w # ws \<Rightarrow> (x # w) # ws))"

text \<open>\<open>c.join(ws)\<close>; splitting and joining with the same separator are inverse.\<close>

fun py_join :: "char \<Rightarrow> string list \<Rightarrow> string" where
  "py_join c [] = []"
| "py_join c [w] = w"
| "py_join c (w # v # ws) = w @ c # py_join c (v # ws)"

section \<open>Truthiness of optional values\<close>

text \<open>\<open>not x\<close> for a field that is \<open>None\<close>, a string or an int.\<close>

fun py_truthy_str :: "string option \<Rightarrow> bool" where
  "py_truthy_str None = False"
| "py_truthy_str (Some s) = (s \<noteq> [])"

section \<open>Dynamically typed values: truthiness and \<open>int(x)\<close>\<close>

text \<open>
  A value the argument parser may hand over where the code expects a number: \<open>None\<close>,
  an \<open>int\<close> or a \<open>str\<close>. \<open>not x\<close> is false for \<open>None\<close>, \<open>0\<close> and \<open>''\<close> (so the
  string \<open>'0'\<close> is truthy); \<open>int(x)\<close> keeps an \<open>int\<close>, raises \<open>TypeError\<close> on \<open>None\<close>
  and parses a \<open>str\<close> as a base-10 literal, raising \<open>ValueError\<close> when it is not one.
\<close>

datatype py_value = PyNone | PyInt int | PyStr string

datatype int_error = IntOfNone | IntLiteralInvalid string

fun py_truthy :: "py_value \<Rightarrow> bool" where
  "py_truthy PyNone = False"
| "py_truthy (PyInt n) = (n \<noteq> 0)"
| "py_truthy (PyStr s) = (s \<noteq> [])"

text \<open>
  The literal grammar of \<open>int(str)\<close>: surrounding whitespace (\<open>str.isspace\<close> on
  code points up to 255), an optional sign, decimal digits with single underscores
  between digits.
\<close>

definition py_isspace :: "char \<Rightarrow> bool" where
  "py_isspace c =
     (let n = (of_char c :: nat) in (9 \<le> n \<and> n \<le> 13) \<or> (28 \<le> n \<and> n \<le> 32) \<or> n = 133 \<or> n = 160)"

definition py_strip :: "string \<Rightarrow> string" where
  "py_strip s = rev (dropWhile py_isspace (rev (dropWhile py_isspace s)))"

definition py_isdigit :: "char \<Rightarrow> bool" where
  "py_isdigit c = (let n = (of_char c :: nat) in 48 \<le> n \<and> n \<le> 57)"

definition digit_value :: "char \<Rightarrow> nat" where
  "digit_value c = of_char c - 48"

fun decimal_tail :: "nat \<Rightarrow> string \<Rightarrow> nat option" where
  "decimal_tail acc [] = Some acc"
| "decimal_tail acc (c # cs) =
     (if py_isdigit c then decimal_tail (10 * acc + digit_value c) cs
      else if c = CHR ''_'' \<and> cs \<noteq> [] \<and> py_isdigit (hd cs) then decimal_tail acc cs
      else None)"

definition py_decimal :: "string \<Rightarrow> nat option" where
  "py_decimal s = (if s \<noteq> [] \<and> py_isdigit (hd s) then decimal_tail 0 s else None)"

definition int_literal :: "string \<Rightarrow> int option" where
  "int_literal s =
     (let t = py_strip s in
      if t \<noteq> [] \<and> hd t = CHR ''-'' then map_option (\<lambda>n. - int n) (py_decimal (tl t))
      else if t \<noteq> [] \<and> hd t = CHR ''+'' then map_option int (py_decimal (tl t))
      else map_option int (py_decimal t))"

fun py_int :: "py_value \<Rightarrow> int_error + int" where
  "py_int PyNone = Inl IntOfNone"
| "py_int (PyInt n) = Inr n"
| "py_int (PyStr s) =
     (case int_literal s of None \<Rightarrow> Inl (IntLiteralInvalid s) | Some n \<Rightarrow> Inr n)"

section \<open>A loop that raises: stop at the first error\<close>

text \<open>
  \<open>for x in xs: out.append(f(x))\<close>, where \<open>f\<close> may raise: the first raise is the
  result of the whole loop.
\<close>

fun map_err :: "('a \<Rightarrow> 'e + 'b) \<Rightarrow> 'a list \<Rightarrow> 'e + 'b list" where
  "map_err f [] = Inr []"
| "map_err f (x # xs) =
     (case f x of Inl e \<Rightarrow> Inl e
      | Inr y \<Rightarrow> (case map_err f xs of Inl e \<Rightarrow> Inl e | Inr ys \<Rightarrow> Inr (y # ys)))"

section \<open>Lemmas on the builtins\<close>

lemma starts_with_prefix [simp]: "starts_with p s \<longleftrightarrow> prefix p s"
  by (induction p s rule: starts_with.induct) auto

text \<open>The executable test agrees with the library's contiguous-sublist relation.\<close>

lemma py_in_sublist: "py_in p s \<longleftrightarrow> sublist p s"
  by (induction s) (auto simp: sublist_Cons_right)

lemma py_in_Nil [simp]: "py_in [] s"
  by (simp add: py_in_sublist)

lemma py_split_not_Nil [simp]: "py_split c s \<noteq> []"
  by (induction s) (auto split: list.split)

text \<open>The last field of a split is what follows the last separator.\<close>

lemma py_split_snoc:
  "py_split c (xs @ [x]) =
     (if x = c then py_split c xs @ [[]]
      else butlast (py_split c xs) @ [last (py_split c xs) @ [x]])"
proof (induction xs)
  case Nil
  then show ?case by simp
next
  case (Cons y ys)
  obtain w ws where P: "py_split c ys = w # ws"
    by (cases "py_split c ys") auto
  show ?case
  proof (cases "x = c")
    case True
    with Cons.IH P show ?thesis by simp
  next
    case False
    with Cons.IH P show ?thesis
      by (cases "ws = []") (simp_all add: butlast_append)
  qed
qed

lemma last_py_split: "last (py_split c s) = rev (takeWhile (\<lambda>x. x \<noteq> c) (rev s))"
  by (induction s rule: rev_induct) (simp_all add: py_split_snoc)

lemma sep_notin_last_py_split: "c \<notin> set (last (py_split c s))"
  by (auto simp: last_py_split dest: set_takeWhileD)

lemma py_split_append_sep:
  "c \<notin> set w \<Longrightarrow> py_split c (w @ c # s) = w # py_split c s"
  by (induction w) auto

lemma py_split_no_sep: "c \<notin> set w \<Longrightarrow> py_split c w = [w]"
  by (induction w) auto

lemma py_join_py_split: "py_join c (py_split c s) = s"
proof (induction s)
  case Nil
  then show ?case by simp
next
  case (Cons x xs)
  then show ?case
    by (cases "py_split c xs" rule: remdups_adj.cases) auto
qed

lemma py_split_py_join:
  "ws \<noteq> [] \<Longrightarrow> \<forall>w\<in>set ws. c \<notin> set w \<Longrightarrow> py_split c (py_join c ws) = ws"
  by (induction c ws rule: py_join.induct) (auto simp: py_split_append_sep py_split_no_sep)

lemma map_err_Inr_D:
  "map_err f xs = Inr ys \<Longrightarrow> list_all2 (\<lambda>x y. f x = Inr y) xs ys"
  by (induction xs arbitrary: ys) (auto split: sum.splits)

lemma map_err_Inl_iff:
  "(\<exists>e. map_err f xs = Inl e) \<longleftrightarrow> (\<exists>x\<in>set xs. \<exists>e. f x = Inl e)"
  by (induction xs) (auto split: sum.splits)

lemma map_err_Inl_D: "map_err f xs = Inl e \<Longrightarrow> \<exists>x\<in>set xs. f x = Inl e"
  by (induction xs) (auto split: sum.splits)

lemma map_err_Inr_set:
  "map_err f xs = Inr ys \<Longrightarrow> y \<in> set ys \<Longrightarrow> \<exists>x\<in>set xs. f x = Inr y"
  by (induction xs arbitrary: ys) (auto split: sum.splits)

lemma map_err_Inr_length:
  "map_err f xs = Inr ys \<Longrightarrow> length ys = length xs"
  by (induction xs arbitrary: ys) (auto split: sum.splits)

lemma map_err_Inr_map:
  "(\<And>x. x \<in> set xs \<Longrightarrow> f x = Inr (g x)) \<Longrightarrow> map_err f xs = Inr (map g xs)"
  by (induction xs) auto

section \<open>Lists used as Python lists and sets\<close>

text \<open>\<open>xs.remove(x)\<close> after a guard \<open>x in xs\<close> removes the first occurrence.\<close>

lemma distinct_append_single [simp]:
  "x \<notin> set xs \<Longrightarrow> distinct (xs @ [x]) = distinct xs"
  by simp

lemma filter_length_eq_iff: "length (filter P xs) = length xs \<longleftrightarrow> filter P xs = xs"
proof
  assume "length (filter P xs) = length xs"
  then have "\<forall>x\<in>set xs. P x"
    using length_filter_less [of _ xs P] by fastforce
  then show "filter P xs = xs" by (simp add: filter_id_conv)
qed simp

lemma sort_key_eq_if_mset_eq:
  "mset xs = mset ys \<Longrightarrow> inj_on f (set xs) \<Longrightarrow> sort_key f xs = sort_key f ys"
  by (rule sort_key_eq_sort_key)

lemma sort_eq_if_mset_eq: "mset xs = mset ys \<Longrightarrow> sort xs = sort ys"
  by (rule sort_key_eq_sort_key) (simp_all add: inj_on_def)

text \<open>Two keys (or two loop bodies) that agree on the elements give the same result.\<close>

lemma map_err_cong: "(\<And>x. x \<in> set xs \<Longrightarrow> f x = g x) \<Longrightarrow> map_err f xs = map_err g xs"
  by (induction xs) (auto split: sum.split)

lemma insort_key_cong:
  "(\<And>y. y \<in> set (x # ys) \<Longrightarrow> f y = g y) \<Longrightarrow> insort_key f x ys = insort_key g x ys"
  by (induction ys) auto

lemma sort_key_cong: "(\<And>x. x \<in> set xs \<Longrightarrow> f x = g x) \<Longrightarrow> sort_key f xs = sort_key g xs"
proof (induction xs)
  case (Cons x xs)
  then have "sort_key f xs = sort_key g xs" by simp
  moreover have "insort_key f x (sort_key g xs) = insort_key g x (sort_key g xs)"
    by (rule insort_key_cong) (use Cons.prems in auto)
  ultimately show ?case by simp
qed simp

text \<open>Evaluating \<open>int(str)\<close> on a concrete literal.\<close>

lemmas py_int_eval = int_literal_def py_strip_def py_isspace_def py_decimal_def
  py_isdigit_def digit_value_def

end
