(* ===== verification/Compute_Messages.thy ===== *)
theory Compute_Messages
  imports Prelude
begin

text \<open>
  The generated compute API messages that the service-attachment code reads and
  writes: the \<open>ServiceAttachment\<close> resource, its accept-list entries
  (\<open>ServiceAttachmentConsumerProjectLimit\<close>), its connected endpoints and the
  connection-preference enum. The generated classes are not part of the
  repository; they are modelled from the fields the sources use. An unset message
  field is \<open>None\<close>; a repeated field is a list (apitools returns \<open>[]\<close>, never
  \<open>None\<close>, for an unset repeated field). Also here: the parsed command-line
  arguments of \<open>service-attachments update\<close>, with \<open>None\<close> for a flag that
  \<open>args.IsSpecified\<close> reports as not given.
\<close>

datatype connection_preference =
    ACCEPT_AUTOMATIC
  | ACCEPT_MANUAL
  | CONNECTION_PREFERENCE_UNSPECIFIED

record consumer_project_limit =
  connectionLimit :: "int option"
  endpointUrl :: "string option"
  networkUrl :: "string option"
  projectIdOrNum :: "string option"

record connected_endpoint =
  endpoint :: "string option"
  endpointWithId :: "string option"

record service_attachment =
  connectedEndpoints :: "connected_endpoint list"
  connectionPreference :: "connection_preference option"
  consumerAcceptLists :: "consumer_project_limit list"
  consumerRejectLists :: "string list"
  description :: "string option"
  enableProxyProtocol :: "bool option"
  natSubnets :: "string list"
  propagatedConnectionLimit :: "int option"
  reconcileConnections :: "bool option"
  targetService :: "string option"

text \<open>
  \<open>--consumer-accept-list\<close> is parsed into a list of dicts from a project id,
  network URL or endpoint URL to a connection limit. The flag's parser lives in
  \<open>command_lib/compute/service_attachments/flags.py\<close>, outside the repository, and the
  normalizers pass the value to \<open>int()\<close> and test its truthiness, so a value is a
  \<open>py_value\<close>: \<open>None\<close> (a key given without a limit), an \<open>int\<close> or the raw \<open>str\<close>.
  A dict is an association list with distinct keys; Python iterates
  \<open>sorted(dict.items())\<close>, and as the keys are distinct the tuples compare by key
  alone, so the iteration order is \<open>sort_key fst\<close>.
\<close>

type_synonym accept_dict = "(string \<times> py_value) list"

record update_args =
  arg_target_service :: "string option"
  arg_description :: "string option"
  arg_connection_preference :: "string option"
  arg_enable_proxy_protocol :: "bool option"
  arg_nat_subnets :: "string list option"
  arg_consumer_reject_list :: "string list option"
  arg_consumer_accept_list :: "accept_dict list option"
  arg_remove_obsolete_endpoint_accept_reject_entries :: bool
  arg_reconcile_connections :: "bool option"
  arg_propagated_connection_limit :: "int option"

text \<open>The argument namespace in which no update flag is given.\<close>

definition no_update_args :: update_args where
  "no_update_args =
     \<lparr>arg_target_service = None, arg_description = None, arg_connection_preference = None,
      arg_enable_proxy_protocol = None, arg_nat_subnets = None,
      arg_consumer_reject_list = None, arg_consumer_accept_list = None,
      arg_remove_obsolete_endpoint_accept_reject_entries = False,
      arg_reconcile_connections = None, arg_propagated_connection_limit = None\<rparr>"

text \<open>A resource with nothing set, for building concrete instances.\<close>

definition empty_service_attachment :: service_attachment where
  "empty_service_attachment =
     \<lparr>connectedEndpoints = [], connectionPreference = None, consumerAcceptLists = [],
      consumerRejectLists = [], description = None, enableProxyProtocol = None,
      natSubnets = [], propagatedConnectionLimit = None, reconcileConnections = None,
      targetService = None\<rparr>"

lemma no_update_args_sel [simp]:
  "arg_target_service no_update_args = None"
  "arg_description no_update_args = None"
  "arg_connection_preference no_update_args = None"
  "arg_enable_proxy_protocol no_update_args = None"
  "arg_nat_subnets no_update_args = None"
  "arg_consumer_reject_list no_update_args = None"
  "arg_consumer_accept_list no_update_args = None"
  "\<not> arg_remove_obsolete_endpoint_accept_reject_entries no_update_args"
  "arg_reconcile_connections no_update_args = None"
  "arg_propagated_connection_limit no_update_args = None"
  by (simp_all add: no_update_args_def)

end
