(* ===== verification/SA_Utils.thy ===== *)
theory SA_Utils
  imports Compute_Messages
begin

text \<open>
  \<open>command_lib/compute/service_attachments/service_attachments_utils.py\<close>: the
  connection-preference resolver, the two accept-list normalizers (without and with
  endpoint-based security), the connected-endpoint-id extractor and the two
  obsolete-entry cleaners. The cleaners mutate the resource and the
  \<open>cleared_fields\<close> list in place; here they return the new resource, the new list
  and the boolean the Python returns.
\<close>

section \<open>Errors raised by the service-attachment code\<close>

text \<open>
  \<open>ValueError\<close>s of the normalizers (utils lines 46, 68, 95), the \<open>TypeError\<close> or
  \<open>ValueError\<close> of \<open>int(conn_limit)\<close> (lines 42, 54, 74, 83, 102) and the
  \<open>ConflictingArgumentsException\<close> of the update command (update.py line 257).
\<close>

datatype sa_error =
    EndpointUrlNotSupported
  | NetworkLimitRequired string
  | ProjectLimitRequired string
  | LimitNotInt int_error
  | ConflictingArguments

section \<open>GetConnectionPreference\<close>

definition get_connection_preference :: "string option \<Rightarrow> connection_preference option" where
  "get_connection_preference p =
     (if p = Some ''ACCEPT_AUTOMATIC'' then Some ACCEPT_AUTOMATIC
      else if p = Some ''ACCEPT_MANUAL'' then Some ACCEPT_MANUAL
      else None)"

section \<open>GetConsumerAcceptList\<close>

text \<open>
  One dict item of the basic normalizer. The limit goes straight to \<open>int()\<close>, which
  raises on \<open>None\<close> and on a string that is not an integer literal.
\<close>

fun accept_entry_basic :: "string \<times> py_value \<Rightarrow> sa_error + consumer_project_limit" where
  "accept_entry_basic (k, conn_limit) =
     (if py_in ''/networks/'' k then
        (case py_int conn_limit of Inl x \<Rightarrow> Inl (LimitNotInt x)
         | Inr n \<Rightarrow> Inr \<lparr>connectionLimit = Some n, endpointUrl = None,
                           networkUrl = Some k, projectIdOrNum = None\<rparr>)
      else if py_in ''/forwardingRules/'' k then Inl EndpointUrlNotSupported
      else
        (case py_int conn_limit of Inl x \<Rightarrow> Inl (LimitNotInt x)
         | Inr n \<Rightarrow> Inr \<lparr>connectionLimit = Some n, endpointUrl = None,
                           networkUrl = None, projectIdOrNum = Some k\<rparr>))"

definition get_consumer_accept_list :: "accept_dict list \<Rightarrow> sa_error + consumer_project_limit list" where
  "get_consumer_accept_list ds = map_err accept_entry_basic (concat (map (sort_key fst) ds))"

section \<open>GetConsumerAcceptListWithEndpointBasedSecurity\<close>

text \<open>
  One dict item of the extended normalizer. The raw limit is tested for truthiness
  (\<open>not conn_limit_raw\<close>) before \<open>int()\<close> sees it: \<open>None\<close>, \<open>0\<close> and the empty string
  count as absent, the string \<open>'0'\<close> does not.
\<close>

fun accept_entry_ebs :: "string \<times> py_value \<Rightarrow> sa_error + consumer_project_limit" where
  "accept_entry_ebs (e, raw) =
     (if py_in ''/networks/'' e then
        (if \<not> py_truthy raw then Inl (NetworkLimitRequired e)
         else case py_int raw of Inl x \<Rightarrow> Inl (LimitNotInt x)
           | Inr n \<Rightarrow> Inr \<lparr>connectionLimit = Some n, endpointUrl = None,
                             networkUrl = Some e, projectIdOrNum = None\<rparr>)
      else if py_in ''/forwardingRules/'' e then
        (if py_truthy raw
         then case py_int raw of Inl x \<Rightarrow> Inl (LimitNotInt x)
           | Inr n \<Rightarrow> Inr \<lparr>connectionLimit = Some n, endpointUrl = Some e,
                             networkUrl = None, projectIdOrNum = None\<rparr>
         else Inr \<lparr>connectionLimit = None, endpointUrl = Some e,
                   networkUrl = None, projectIdOrNum = None\<rparr>)
      else if \<not> py_truthy raw then Inl (ProjectLimitRequired e)
      else case py_int raw of Inl x \<Rightarrow> Inl (LimitNotInt x)
        | Inr n \<Rightarrow> Inr \<lparr>connectionLimit = Some n, endpointUrl = None,
                          networkUrl = None, projectIdOrNum = Some e\<rparr>)"

definition get_consumer_accept_list_ebs ::
  "accept_dict list \<Rightarrow> sa_error + consumer_project_limit list" where
  "get_consumer_accept_list_ebs ds = map_err accept_entry_ebs (concat (map (sort_key fst) ds))"

section \<open>GetConnectedEndpointIds\<close>

text \<open>\<open>url.rstrip('/').split('/')[-1]\<close>: the last path segment of a URL.\<close>

definition endpoint_id :: "string \<Rightarrow> string" where
  "endpoint_id u = last (py_split (CHR ''/'') (py_rstrip (CHR ''/'') u))"

definition get_connected_endpoint_ids :: "service_attachment \<Rightarrow> string set" where
  "get_connected_endpoint_ids sa =
     set (map endpoint_id (filter (\<lambda>u. u \<noteq> []) (List.map_filter endpointWithId (connectedEndpoints sa))))"

section \<open>CleanObsoleteAcceptedEndpointUrls and CleanObsoleteRejectedEndpointUrls\<close>

type_synonym clean_result = "service_attachment \<times> string list \<times> bool"

text \<open>The filter predicates: keep what has no endpoint URL or a connected one.\<close>

definition keep_accept_entry :: "string set \<Rightarrow> consumer_project_limit \<Rightarrow> bool" where
  "keep_accept_entry ids e =
     (case endpointUrl e of None \<Rightarrow> True | Some u \<Rightarrow> u = [] \<or> endpoint_id u \<in> ids)"

definition keep_reject_entry :: "string set \<Rightarrow> string \<Rightarrow> bool" where
  "keep_reject_entry ids e = (\<not> py_in ''/forwardingRules/'' e \<or> endpoint_id e \<in> ids)"

text \<open>
  The bookkeeping both cleaners do once the list shrank: mark the field cleared
  when the list became empty, unmark it when it did not.
\<close>

definition cleared_after_clean :: "string \<Rightarrow> 'a list \<Rightarrow> string list \<Rightarrow> string list" where
  "cleared_after_clean field cleaned cleared =
     (if cleaned = [] \<and> field \<notin> set cleared then cleared @ [field]
      else if cleaned \<noteq> [] \<and> field \<in> set cleared then remove1 field cleared
      else cleared)"

definition clean_obsolete_accepted_endpoint_urls ::
  "service_attachment \<Rightarrow> string set \<Rightarrow> string list \<Rightarrow> clean_result" where
  "clean_obsolete_accepted_endpoint_urls sa ids cleared =
     (if consumerAcceptLists sa = [] then (sa, cleared, False)
      else
        let old_len = length (consumerAcceptLists sa);
            cleaned = filter (keep_accept_entry ids) (consumerAcceptLists sa);
            sa' = sa\<lparr>consumerAcceptLists := cleaned\<rparr>
        in if length cleaned = old_len then (sa', cleared, False)
           else (sa', cleared_after_clean ''consumerAcceptLists'' cleaned cleared, True))"

definition clean_obsolete_rejected_endpoint_urls ::
  "service_attachment \<Rightarrow> string set \<Rightarrow> string list \<Rightarrow> clean_result" where
  "clean_obsolete_rejected_endpoint_urls sa ids cleared =
     (if consumerRejectLists sa = [] then (sa, cleared, False)
      else
        let old_len = length (consumerRejectLists sa);
            cleaned = filter (keep_reject_entry ids) (consumerRejectLists sa);
            sa' = sa\<lparr>consumerRejectLists := cleaned\<rparr>
        in if length cleaned = old_len then (sa', cleared, False)
           else (sa', cleared_after_clean ''consumerRejectLists'' cleaned cleared, True))"

section \<open>Properties\<close>

subsection \<open>Accept-list entries\<close>

text \<open>
  An accept-list entry names exactly one of a project, a network or an endpoint;
  its identifier is the one it names (the message has one optional field each).
\<close>

definition single_identifier :: "consumer_project_limit \<Rightarrow> bool" where
  "single_identifier e =
     (length (filter (\<lambda>x. x \<noteq> None) [projectIdOrNum e, networkUrl e, endpointUrl e]) = 1)"

definition identifier_of :: "consumer_project_limit \<Rightarrow> string option" where
  "identifier_of e =
     (case projectIdOrNum e of Some p \<Rightarrow> Some p
      | None \<Rightarrow> (case endpointUrl e of Some u \<Rightarrow> Some u | None \<Rightarrow> networkUrl e))"

text \<open>
  An item on which the two normalizers must agree: it carries a truthy limit and is
  not an endpoint URL (a key naming both a network and a forwarding rule is read as
  a network by both).
\<close>

definition basic_ebs_agree :: "string \<times> py_value \<Rightarrow> bool" where
  "basic_ebs_agree kv =
     (case kv of (k, v) \<Rightarrow>
        py_truthy v \<and> (py_in ''/forwardingRules/'' k \<longrightarrow> py_in ''/networks/'' k))"

lemma accept_entry_basic_Inr:
  "accept_entry_basic (k, v) = Inr y \<Longrightarrow>
     single_identifier y \<and> endpointUrl y = None \<and> identifier_of y = Some k \<and>
     map_option Inr (connectionLimit y) = Some (py_int v)"
  by (auto simp: single_identifier_def identifier_of_def split: if_splits sum.splits)

lemma accept_entry_basic_ok_iff:
  "(\<exists>y. accept_entry_basic kv = Inr y) \<longleftrightarrow>
     (case kv of (k, v) \<Rightarrow> (\<exists>n. py_int v = Inr n) \<and>
        (py_in ''/forwardingRules/'' k \<longrightarrow> py_in ''/networks/'' k))"
  by (cases kv) (auto split: sum.splits)

lemma accept_entry_ebs_Inr:
  "accept_entry_ebs (k, v) = Inr y \<Longrightarrow>
     single_identifier y \<and> identifier_of y = Some k \<and>
     map_option Inr (connectionLimit y) = (if py_truthy v then Some (py_int v) else None) \<and>
     (endpointUrl y \<noteq> None \<longleftrightarrow> \<not> py_in ''/networks/'' k \<and> py_in ''/forwardingRules/'' k)"
  by (auto simp: single_identifier_def identifier_of_def split: if_splits sum.splits)

lemma accept_entry_ebs_ok_iff:
  "(\<exists>y. accept_entry_ebs kv = Inr y) \<longleftrightarrow>
     (case kv of (k, v) \<Rightarrow>
        (py_truthy v \<longrightarrow> (\<exists>n. py_int v = Inr n)) \<and>
        (py_truthy v \<or> (\<not> py_in ''/networks/'' k \<and> py_in ''/forwardingRules/'' k)))"
  by (cases kv) (auto split: sum.splits)

lemma sum_ex_Inr_iff: "(\<exists>y. s = Inr y) \<longleftrightarrow> \<not> (\<exists>e. s = Inl e)"
  by (cases s) auto

lemma map_err_ok_iff:
  "(\<exists>ys. map_err f xs = Inr ys) \<longleftrightarrow> (\<forall>x\<in>set xs. \<exists>y. f x = Inr y)"
  by (simp add: sum_ex_Inr_iff map_err_Inl_iff)

lemma list_all2_map_eq:
  "list_all2 P xs ys \<Longrightarrow> (\<And>x y. P x y \<Longrightarrow> f y = g x) \<Longrightarrow> map f ys = map g xs"
  by (induction rule: list_all2_induct) auto

lemma map_err_list_all2_map:
  "map_err f xs = Inr ys \<Longrightarrow> (\<And>x y. f x = Inr y \<Longrightarrow> g y = h x) \<Longrightarrow> map g ys = map h xs"
  by (rule list_all2_map_eq [OF map_err_Inr_D])

subsection \<open>The normalizers\<close>

text \<open>
  C7: the basic normalizer (no endpoint-based security) succeeds exactly when
  \<open>int()\<close> accepts every dict item's limit and no item names an endpoint URL that is
  not also a network URL; otherwise it raises.
\<close>

theorem get_consumer_accept_list_ok_iff:
  "(\<exists>ys. get_consumer_accept_list ds = Inr ys) \<longleftrightarrow>
     (\<forall>(k, v)\<in>set (concat ds). (\<exists>n. py_int v = Inr n) \<and>
        (py_in ''/forwardingRules/'' k \<longrightarrow> py_in ''/networks/'' k))"
  by (simp add: get_consumer_accept_list_def map_err_ok_iff accept_entry_basic_ok_iff
      del: accept_entry_basic.simps)

text \<open>
  C8: on success the basic normalizer emits one entry per item, in the order of the
  dicts and, within a dict, of its sorted keys; each entry names exactly the item's
  key, as a network or a project, never an endpoint, and carries the integer
  \<open>int()\<close> made of the item's limit.
\<close>

theorem get_consumer_accept_list_entries:
  assumes "get_consumer_accept_list ds = Inr ys"
  shows "map identifier_of ys = map (Some \<circ> fst) (concat (map (sort_key fst) ds)) \<and>
     map (map_option Inr \<circ> connectionLimit) ys =
       map (\<lambda>(k, v). Some (py_int v)) (concat (map (sort_key fst) ds)) \<and>
     (\<forall>y\<in>set ys. single_identifier y \<and> endpointUrl y = None)"
proof -
  have ok: "map_err accept_entry_basic (concat (map (sort_key fst) ds)) = Inr ys"
    using assms by (simp add: get_consumer_accept_list_def)
  have "map identifier_of ys = map (Some \<circ> fst) (concat (map (sort_key fst) ds))"
    using ok by (rule map_err_list_all2_map) (auto dest: accept_entry_basic_Inr simp del: accept_entry_basic.simps)
  moreover have "map (map_option Inr \<circ> connectionLimit) ys =
       map (\<lambda>(k, v). Some (py_int v)) (concat (map (sort_key fst) ds))"
    using ok by (rule map_err_list_all2_map) (auto dest: accept_entry_basic_Inr simp del: accept_entry_basic.simps)
  moreover have "\<forall>y\<in>set ys. single_identifier y \<and> endpointUrl y = None"
    using ok by (fastforce dest: map_err_Inr_set accept_entry_basic_Inr simp del: accept_entry_basic.simps)
  ultimately show ?thesis by blast
qed

text \<open>
  C9: the extended normalizer fails exactly on a network or project item whose raw
  limit is falsy (\<open>None\<close>, \<open>0\<close> or the empty string) and on an item whose truthy
  limit \<open>int()\<close> rejects; an endpoint item needs no limit, and the string \<open>'0'\<close>
  is accepted as the limit 0.
\<close>

theorem get_consumer_accept_list_ebs_ok_iff:
  "(\<exists>ys. get_consumer_accept_list_ebs ds = Inr ys) \<longleftrightarrow>
     (\<forall>(k, v)\<in>set (concat ds).
        (py_truthy v \<longrightarrow> (\<exists>n. py_int v = Inr n)) \<and>
        (py_truthy v \<or> (\<not> py_in ''/networks/'' k \<and> py_in ''/forwardingRules/'' k)))"
  by (simp add: get_consumer_accept_list_ebs_def map_err_ok_iff accept_entry_ebs_ok_iff
      del: accept_entry_ebs.simps)

text \<open>
  C10: on success the extended normalizer emits one entry per item in the same
  order, naming exactly the item's key; it is an endpoint entry exactly for an
  endpoint URL that is not a network URL, and it carries a limit exactly when the
  raw limit is truthy, namely the integer \<open>int()\<close> made of it.
\<close>

theorem get_consumer_accept_list_ebs_entries:
  assumes "get_consumer_accept_list_ebs ds = Inr ys"
  shows "map identifier_of ys = map (Some \<circ> fst) (concat (map (sort_key fst) ds)) \<and>
     map (map_option Inr \<circ> connectionLimit) ys =
       map (\<lambda>(k, v). if py_truthy v then Some (py_int v) else None) (concat (map (sort_key fst) ds)) \<and>
     map (\<lambda>y. endpointUrl y \<noteq> None) ys =
       map (\<lambda>(k, v). \<not> py_in ''/networks/'' k \<and> py_in ''/forwardingRules/'' k) (concat (map (sort_key fst) ds)) \<and>
     (\<forall>y\<in>set ys. single_identifier y)"
proof -
  have ok: "map_err accept_entry_ebs (concat (map (sort_key fst) ds)) = Inr ys"
    using assms by (simp add: get_consumer_accept_list_ebs_def)
  have "map identifier_of ys = map (Some \<circ> fst) (concat (map (sort_key fst) ds))"
    using ok by (rule map_err_list_all2_map) (auto dest: accept_entry_ebs_Inr simp del: accept_entry_ebs.simps)
  moreover have "map (map_option Inr \<circ> connectionLimit) ys =
       map (\<lambda>(k, v). if py_truthy v then Some (py_int v) else None) (concat (map (sort_key fst) ds))"
    using ok by (rule map_err_list_all2_map) (auto dest: accept_entry_ebs_Inr simp del: accept_entry_ebs.simps)
  moreover have "map (\<lambda>y. endpointUrl y \<noteq> None) ys =
       map (\<lambda>(k, v). \<not> py_in ''/networks/'' k \<and> py_in ''/forwardingRules/'' k) (concat (map (sort_key fst) ds))"
    using ok by (rule map_err_list_all2_map) (auto dest: accept_entry_ebs_Inr simp del: accept_entry_ebs.simps)
  moreover have "\<forall>y\<in>set ys. single_identifier y"
    using ok by (fastforce dest: map_err_Inr_set accept_entry_ebs_Inr simp del: accept_entry_ebs.simps)
  ultimately show ?thesis by blast
qed

lemma accept_entry_basic_eq_ebs:
  "basic_ebs_agree kv \<Longrightarrow> accept_entry_basic kv = accept_entry_ebs kv"
  by (cases kv) (auto simp: basic_ebs_agree_def)

text \<open>
  C21: on items with a truthy limit and no endpoint URL the basic and the extended
  normalizer are the same function: both raise the same error or emit the same
  entries. They differ only on endpoint URLs and on falsy limits.
\<close>

theorem get_consumer_accept_list_eq_ebs:
  assumes "\<forall>kv\<in>set (concat ds). basic_ebs_agree kv"
  shows "get_consumer_accept_list ds = get_consumer_accept_list_ebs ds"
  unfolding get_consumer_accept_list_def get_consumer_accept_list_ebs_def
  by (rule map_err_cong) (use assms accept_entry_basic_eq_ebs in auto)

subsection \<open>Endpoint ids\<close>

text \<open>The split-based extraction equals a single backwards scan of the URL.\<close>

lemma endpoint_id_scan:
  "endpoint_id u =
     rev (takeWhile (\<lambda>x. x \<noteq> CHR ''/'') (dropWhile (\<lambda>x. x = CHR ''/'') (rev u)))"
  by (simp add: endpoint_id_def last_py_split py_rstrip_def)

text \<open>
  C11: the id of a URL is its last non-empty path segment, whatever the prefix and
  however many slashes trail it.
\<close>

theorem endpoint_id_url:
  assumes "CHR ''/'' \<notin> set i" and "i \<noteq> []"
  shows "endpoint_id (p @ CHR ''/'' # i @ replicate n (CHR ''/'')) = i"
proof -
  from assms obtain j x where i: "i = j @ [x]" and x: "x \<noteq> CHR ''/''"
    by (cases i rule: rev_cases) auto
  have "dropWhile (\<lambda>x. x = CHR ''/'') (rev (p @ CHR ''/'' # i @ replicate n (CHR ''/'')))
        = rev i @ CHR ''/'' # rev p"
    using x by (simp add: i dropWhile_append3)
  moreover have "takeWhile (\<lambda>x. x \<noteq> CHR ''/'') (rev i @ CHR ''/'' # rev p) = rev i"
    using assms(1) by (subst takeWhile_append2) auto
  ultimately show ?thesis
    by (simp add: endpoint_id_scan)
qed

subsection \<open>The cleaners\<close>

lemma cleared_after_clean_distinct:
  "distinct cl \<Longrightarrow> distinct (cleared_after_clean f c cl)"
  by (simp add: cleared_after_clean_def distinct_remove1)

lemma cleared_after_clean_subset:
  "f \<in> S \<Longrightarrow> set cl \<subseteq> S \<Longrightarrow> set (cleared_after_clean f c cl) \<subseteq> S"
  using set_remove1_subset [of f cl] by (auto simp: cleared_after_clean_def)

lemma cleared_after_clean_mem:
  "distinct cl \<Longrightarrow>
     g \<in> set (cleared_after_clean f c cl) \<longleftrightarrow> (if g = f then c = [] else g \<in> set cl)"
  by (auto simp: cleared_after_clean_def)

text \<open>
  Abstract view of a cleaner: the list becomes its filtered version, the result
  flag says whether that changed it, and only then is the clear-list touched.
  The code tests the change by comparing lengths.
\<close>

lemma clean_obsolete_accepted_endpoint_urls_abs:
  "clean_obsolete_accepted_endpoint_urls sa ids cl =
     (let cleaned = filter (keep_accept_entry ids) (consumerAcceptLists sa);
          changed = (cleaned \<noteq> consumerAcceptLists sa)
      in (sa\<lparr>consumerAcceptLists := cleaned\<rparr>,
          if changed then cleared_after_clean ''consumerAcceptLists'' cleaned cl else cl,
          changed))"
  by (simp add: clean_obsolete_accepted_endpoint_urls_def Let_def filter_length_eq_iff)

lemma clean_obsolete_rejected_endpoint_urls_abs:
  "clean_obsolete_rejected_endpoint_urls sa ids cl =
     (let cleaned = filter (keep_reject_entry ids) (consumerRejectLists sa);
          changed = (cleaned \<noteq> consumerRejectLists sa)
      in (sa\<lparr>consumerRejectLists := cleaned\<rparr>,
          if changed then cleared_after_clean ''consumerRejectLists'' cleaned cl else cl,
          changed))"
  by (simp add: clean_obsolete_rejected_endpoint_urls_def Let_def filter_length_eq_iff)

lemmas clean_abs = clean_obsolete_accepted_endpoint_urls_abs clean_obsolete_rejected_endpoint_urls_abs

lemma cleared_after_clean_spec:
  "distinct cl \<Longrightarrow>
     distinct (cleared_after_clean f c cl) \<and>
     (\<forall>g. g \<noteq> f \<longrightarrow> (g \<in> set (cleared_after_clean f c cl) \<longleftrightarrow> g \<in> set cl)) \<and>
     (f \<in> set (cleared_after_clean f c cl) \<longleftrightarrow> c = [])"
  by (simp add: cleared_after_clean_distinct cleared_after_clean_mem)

text \<open>
  C12: the accept-list cleaner removes exactly the entries whose endpoint URL is not
  connected, reports a change exactly when there was such an entry, and keeps the
  clear-list duplicate-free: after a change it holds the field name exactly when the
  list became empty; without a change it is untouched.
\<close>

theorem clean_obsolete_accepted_endpoint_urls_spec:
  assumes "clean_obsolete_accepted_endpoint_urls sa ids cl = (sa', cl', ch)" and "distinct cl"
  shows "sa' = sa\<lparr>consumerAcceptLists := filter (keep_accept_entry ids) (consumerAcceptLists sa)\<rparr> \<and>
    ch = (\<exists>e\<in>set (consumerAcceptLists sa). \<not> keep_accept_entry ids e) \<and>
    distinct cl' \<and>
    (\<forall>g. g \<noteq> ''consumerAcceptLists'' \<longrightarrow> (g \<in> set cl' \<longleftrightarrow> g \<in> set cl)) \<and>
    (''consumerAcceptLists'' \<in> set cl' \<longleftrightarrow>
       (if ch then consumerAcceptLists sa' = [] else ''consumerAcceptLists'' \<in> set cl))"
  using assms cleared_after_clean_spec [OF assms(2), of "''consumerAcceptLists''"
      "filter (keep_accept_entry ids) (consumerAcceptLists sa)"]
  by (auto simp: clean_obsolete_accepted_endpoint_urls_abs Let_def filter_id_conv split: if_splits)

text \<open>
  C13: the reject-list cleaner removes exactly the endpoint-URL entries whose id is
  not connected, with the same change report and clear-list discipline.
\<close>

theorem clean_obsolete_rejected_endpoint_urls_spec:
  assumes "clean_obsolete_rejected_endpoint_urls sa ids cl = (sa', cl', ch)" and "distinct cl"
  shows "sa' = sa\<lparr>consumerRejectLists := filter (keep_reject_entry ids) (consumerRejectLists sa)\<rparr> \<and>
    ch = (\<exists>e\<in>set (consumerRejectLists sa). py_in ''/forwardingRules/'' e \<and> endpoint_id e \<notin> ids) \<and>
    distinct cl' \<and>
    (\<forall>g. g \<noteq> ''consumerRejectLists'' \<longrightarrow> (g \<in> set cl' \<longleftrightarrow> g \<in> set cl)) \<and>
    (''consumerRejectLists'' \<in> set cl' \<longleftrightarrow>
       (if ch then consumerRejectLists sa' = [] else ''consumerRejectLists'' \<in> set cl))"
  using assms cleared_after_clean_spec [OF assms(2), of "''consumerRejectLists''"
      "filter (keep_reject_entry ids) (consumerRejectLists sa)"]
  by (auto simp: clean_obsolete_rejected_endpoint_urls_abs Let_def filter_id_conv keep_reject_entry_def
      split: if_splits)

subsection \<open>Witnesses\<close>

theorem get_consumer_accept_list_ok_iff_witness:
  "\<exists>ys. get_consumer_accept_list [[(''projects/p1'', PyStr ''10'')]] = Inr ys"
  using get_consumer_accept_list_ok_iff [of "[[(''projects/p1'', PyStr ''10'')]]"] by (simp add: py_int_eval)

theorem get_consumer_accept_list_entries_witness:
  "get_consumer_accept_list [[(''projects/p1'', PyStr ''10'')]] =
     Inr [\<lparr>connectionLimit = Some 10, endpointUrl = None, networkUrl = None, projectIdOrNum = Some ''projects/p1''\<rparr>] \<and>
   map identifier_of [\<lparr>connectionLimit = Some 10, endpointUrl = None, networkUrl = None, projectIdOrNum = Some ''projects/p1''\<rparr>] =
     [Some ''projects/p1'']"
proof -
  have h: "get_consumer_accept_list [[(''projects/p1'', PyStr ''10'')]] =
     Inr [\<lparr>connectionLimit = Some 10, endpointUrl = None, networkUrl = None, projectIdOrNum = Some ''projects/p1''\<rparr>]"
    by (simp add: get_consumer_accept_list_def py_int_eval)
  show ?thesis using h get_consumer_accept_list_entries [OF h] by simp
qed

theorem get_consumer_accept_list_ebs_ok_iff_witness:
  "\<exists>ys. get_consumer_accept_list_ebs
     [[(''projects/p/regions/r/forwardingRules/e1'', PyNone), (''p1'', PyStr ''0'')]] = Inr ys"
  using get_consumer_accept_list_ebs_ok_iff
    [of "[[(''projects/p/regions/r/forwardingRules/e1'', PyNone), (''p1'', PyStr ''0'')]]"]
  by (simp add: py_int_eval)

theorem get_consumer_accept_list_ebs_entries_witness:
  "get_consumer_accept_list_ebs [[(''projects/p/regions/r/forwardingRules/e1'', PyStr ''5'')]] =
     Inr [\<lparr>connectionLimit = Some 5, endpointUrl = Some ''projects/p/regions/r/forwardingRules/e1'',
           networkUrl = None, projectIdOrNum = None\<rparr>] \<and>
   map connectionLimit [\<lparr>connectionLimit = Some 5, endpointUrl = Some ''projects/p/regions/r/forwardingRules/e1'',
           networkUrl = None, projectIdOrNum = None\<rparr>] = [Some 5]"
proof -
  have h: "get_consumer_accept_list_ebs [[(''projects/p/regions/r/forwardingRules/e1'', PyStr ''5'')]] =
     Inr [\<lparr>connectionLimit = Some 5, endpointUrl = Some ''projects/p/regions/r/forwardingRules/e1'',
           networkUrl = None, projectIdOrNum = None\<rparr>]"
    by (simp add: get_consumer_accept_list_ebs_def py_int_eval)
  show ?thesis using h get_consumer_accept_list_ebs_entries [OF h] by simp
qed

theorem endpoint_id_url_witness:
  "endpoint_id (''projects/p/regions/r/forwardingRules'' @ CHR ''/'' # ''e1'' @ replicate 2 (CHR ''/'')) = ''e1''"
  using endpoint_id_url [of "''e1''" "''projects/p/regions/r/forwardingRules''" 2] by simp

theorem clean_obsolete_accepted_endpoint_urls_spec_witness:
  "clean_obsolete_accepted_endpoint_urls
      (empty_service_attachment\<lparr>consumerAcceptLists :=
         [\<lparr>connectionLimit = None, endpointUrl = Some ''projects/p/regions/r/forwardingRules/e3'',
           networkUrl = None, projectIdOrNum = None\<rparr>]\<rparr>) {''e1'', ''e2''} [] =
     (empty_service_attachment, [''consumerAcceptLists''], True) \<and>
   distinct [''consumerAcceptLists'']"
proof -
  have h: "clean_obsolete_accepted_endpoint_urls
      (empty_service_attachment\<lparr>consumerAcceptLists :=
         [\<lparr>connectionLimit = None, endpointUrl = Some ''projects/p/regions/r/forwardingRules/e3'',
           networkUrl = None, projectIdOrNum = None\<rparr>]\<rparr>) {''e1'', ''e2''} [] =
     (empty_service_attachment, [''consumerAcceptLists''], True)"
    by (simp add: clean_obsolete_accepted_endpoint_urls_def keep_accept_entry_def endpoint_id_scan
        cleared_after_clean_def empty_service_attachment_def)
  show ?thesis using h clean_obsolete_accepted_endpoint_urls_spec [OF h] by simp
qed

theorem clean_obsolete_rejected_endpoint_urls_spec_witness:
  "clean_obsolete_rejected_endpoint_urls
      (empty_service_attachment\<lparr>consumerRejectLists := [''projects/p/regions/r/forwardingRules/e3'', ''p9'']\<rparr>)
      {''e1''} [''consumerRejectLists''] =
     (empty_service_attachment\<lparr>consumerRejectLists := [''p9'']\<rparr>, [], True) \<and>
   ''consumerRejectLists'' \<notin> set []"
proof -
  have h: "clean_obsolete_rejected_endpoint_urls
      (empty_service_attachment\<lparr>consumerRejectLists := [''projects/p/regions/r/forwardingRules/e3'', ''p9'']\<rparr>)
      {''e1''} [''consumerRejectLists''] =
     (empty_service_attachment\<lparr>consumerRejectLists := [''p9'']\<rparr>, [], True)"
    by (simp add: clean_obsolete_rejected_endpoint_urls_def keep_reject_entry_def endpoint_id_scan
        cleared_after_clean_def)
  show ?thesis using h clean_obsolete_rejected_endpoint_urls_spec [OF h] by simp
qed

theorem get_consumer_accept_list_eq_ebs_witness:
  "get_consumer_accept_list [[(''projects/p/global/networks/n'', PyStr ''3''), (''p1'', PyStr ''x'')]] =
   get_consumer_accept_list_ebs [[(''projects/p/global/networks/n'', PyStr ''3''), (''p1'', PyStr ''x'')]]"
  using get_consumer_accept_list_eq_ebs [of "[[(''projects/p/global/networks/n'', PyStr ''3''), (''p1'', PyStr ''x'')]]"]
  by (simp add: basic_ebs_agree_def)

end
