(* ===== verification/SA_Update.thy ===== *)
theory SA_Update
  imports SA_Utils
begin

text \<open>
  \<open>surface/compute/service_attachments/update.py\<close>: \<open>UpdateHelper\<close> and the
  release-track commands. \<open>_Modify\<close> threads three mutable values through ten
  blocks, one per flag: the copy \<open>replacement\<close> of the old resource, the
  \<open>cleared_fields\<close> list (mutated in place and read by \<open>Run\<close>) and the flag
  \<open>is_updated\<close>. Here they are the record \<open>modify_state\<close>, each block is a
  function on it (the accept-list and obsolete-entry blocks may raise, so they return
  \<open>sa_error + modify_state\<close>), and \<open>modify\<close> composes them in the source's order.
  Reading the old resource and sending the patch are done by the generated client;
  \<open>run\<close> takes the fetched resource as input and returns the request it would issue.
\<close>

section \<open>Sort keys and accept-list selection (lines 110-134)\<close>

definition get_consumer_accept_list_based_on_arg ::
  "bool \<Rightarrow> accept_dict list \<Rightarrow> sa_error + consumer_project_limit list" where
  "get_consumer_accept_list_based_on_arg ebs ds =
     (if ebs then get_consumer_accept_list_ebs ds else get_consumer_accept_list ds)"

definition get_project_or_network :: "consumer_project_limit \<Rightarrow> string option \<times> int option" where
  "get_project_or_network c =
     (if projectIdOrNum c \<noteq> None then (projectIdOrNum c, connectionLimit c)
      else (networkUrl c, connectionLimit c))"

definition get_project_or_network_or_endpoint ::
  "consumer_project_limit \<Rightarrow> string option \<times> int option" where
  "get_project_or_network_or_endpoint c =
     (if projectIdOrNum c \<noteq> None then (projectIdOrNum c, connectionLimit c)
      else if endpointUrl c \<noteq> None then (endpointUrl c, connectionLimit c)
      else (networkUrl c, connectionLimit c))"

definition get_project_or_network_or_endpoint_based_on_arg ::
  "bool \<Rightarrow> consumer_project_limit \<Rightarrow> string option \<times> int option" where
  "get_project_or_network_or_endpoint_based_on_arg ebs c =
     (if ebs then get_project_or_network_or_endpoint c else get_project_or_network c)"

section \<open>_RemoveObsoleteEndpointEntries (lines 169-186)\<close>

definition remove_obsolete_endpoint_entries ::
  "service_attachment \<Rightarrow> string list \<Rightarrow> clean_result" where
  "remove_obsolete_endpoint_entries r cl =
     (let ids = get_connected_endpoint_ids r;
          (r1, cl1, acc) = clean_obsolete_accepted_endpoint_urls r ids cl;
          (r2, cl2, rej) = clean_obsolete_rejected_endpoint_urls r1 ids cl1
      in (r2, cl2, acc \<or> rej))"

section \<open>_Modify (lines 188-280), block by block\<close>

record modify_state =
  replacement :: service_attachment
  cleared_fields :: "string list"
  is_updated :: bool

definition modify_target_service :: "update_args \<Rightarrow> modify_state \<Rightarrow> modify_state" where
  "modify_target_service args st =
     (case arg_target_service args of None \<Rightarrow> st
      | Some t \<Rightarrow> st\<lparr>is_updated := True,
                    replacement := (replacement st)\<lparr>targetService := Some t\<rparr>\<rparr>)"

definition modify_description ::
  "update_args \<Rightarrow> service_attachment \<Rightarrow> modify_state \<Rightarrow> modify_state" where
  "modify_description args old st =
     (case arg_description args of None \<Rightarrow> st
      | Some d \<Rightarrow>
          if Some d \<noteq> description old
          then st\<lparr>replacement := (replacement st)\<lparr>description := Some d\<rparr>, is_updated := True\<rparr>
          else st)"

definition modify_connection_preference ::
  "update_args \<Rightarrow> service_attachment \<Rightarrow> modify_state \<Rightarrow> modify_state" where
  "modify_connection_preference args old st =
     (if arg_connection_preference args = None then st
      else
        let p = get_connection_preference (arg_connection_preference args)
        in if p \<noteq> connectionPreference old
           then st\<lparr>replacement := (replacement st)\<lparr>connectionPreference := p\<rparr>, is_updated := True\<rparr>
           else st)"

definition modify_proxy_protocol ::
  "update_args \<Rightarrow> service_attachment \<Rightarrow> modify_state \<Rightarrow> modify_state" where
  "modify_proxy_protocol args old st =
     (case arg_enable_proxy_protocol args of None \<Rightarrow> st
      | Some b \<Rightarrow>
          if Some b \<noteq> enableProxyProtocol old
          then st\<lparr>replacement := (replacement st)\<lparr>enableProxyProtocol := Some b\<rparr>, is_updated := True\<rparr>
          else st)"

definition modify_nat_subnets ::
  "update_args \<Rightarrow> service_attachment \<Rightarrow> modify_state \<Rightarrow> modify_state" where
  "modify_nat_subnets args old st =
     (case arg_nat_subnets args of None \<Rightarrow> st
      | Some ns \<Rightarrow>
          let new = sort ns
          in if new \<noteq> sort (natSubnets old)
             then st\<lparr>replacement := (replacement st)\<lparr>natSubnets := new\<rparr>, is_updated := True\<rparr>
             else st)"

definition modify_reject_list ::
  "update_args \<Rightarrow> service_attachment \<Rightarrow> modify_state \<Rightarrow> modify_state" where
  "modify_reject_list args old st =
     (case arg_consumer_reject_list args of None \<Rightarrow> st
      | Some l \<Rightarrow>
          let new = sort l
          in if new \<noteq> sort (consumerRejectLists old)
             then st\<lparr>replacement := (replacement st)\<lparr>consumerRejectLists := new\<rparr>,
                     is_updated := True,
                     cleared_fields :=
                       (if new = [] then cleared_fields st @ [''consumerRejectLists'']
                        else cleared_fields st)\<rparr>
             else st)"

definition modify_accept_list ::
  "bool \<Rightarrow> update_args \<Rightarrow> service_attachment \<Rightarrow> modify_state \<Rightarrow> sa_error + modify_state" where
  "modify_accept_list ebs args old st =
     (case arg_consumer_accept_list args of None \<Rightarrow> Inr st
      | Some ds \<Rightarrow>
          (case get_consumer_accept_list_based_on_arg ebs ds of Inl e \<Rightarrow> Inl e
           | Inr l \<Rightarrow>
               let key = get_project_or_network_or_endpoint_based_on_arg ebs;
                   new = sort_key key l
               in if new \<noteq> sort_key key (consumerAcceptLists old)
                  then Inr (st\<lparr>replacement := (replacement st)\<lparr>consumerAcceptLists := new\<rparr>,
                               is_updated := True,
                               cleared_fields :=
                                 (if new = [] then cleared_fields st @ [''consumerAcceptLists'']
                                  else cleared_fields st)\<rparr>)
                  else Inr st))"

text \<open>
  The obsolete-entry block assigns \<open>is_updated\<close> the pruning result
  (\<open>is_updated = self._RemoveObsoleteEndpointEntries(...)\<close>), discarding what the
  earlier blocks recorded.
\<close>

definition modify_remove_obsolete ::
  "bool \<Rightarrow> update_args \<Rightarrow> modify_state \<Rightarrow> sa_error + modify_state" where
  "modify_remove_obsolete ebs args st =
     (if ebs \<and> arg_remove_obsolete_endpoint_accept_reject_entries args then
        (if arg_consumer_accept_list args \<noteq> None \<or> arg_consumer_reject_list args \<noteq> None
         then Inl ConflictingArguments
         else
           let (r, cl, u) = remove_obsolete_endpoint_entries (replacement st) (cleared_fields st)
           in Inr \<lparr>replacement = r, cleared_fields = cl, is_updated = u\<rparr>)
      else Inr st)"

definition modify_reconcile_connections ::
  "update_args \<Rightarrow> service_attachment \<Rightarrow> modify_state \<Rightarrow> modify_state" where
  "modify_reconcile_connections args old st =
     (case arg_reconcile_connections args of None \<Rightarrow> st
      | Some b \<Rightarrow>
          if Some b \<noteq> reconcileConnections old
          then st\<lparr>replacement := (replacement st)\<lparr>reconcileConnections := Some b\<rparr>, is_updated := True\<rparr>
          else st)"

definition modify_propagated_connection_limit ::
  "update_args \<Rightarrow> service_attachment \<Rightarrow> modify_state \<Rightarrow> modify_state" where
  "modify_propagated_connection_limit args old st =
     (case arg_propagated_connection_limit args of None \<Rightarrow> st
      | Some n \<Rightarrow>
          if Some n \<noteq> propagatedConnectionLimit old
          then st\<lparr>replacement := (replacement st)\<lparr>propagatedConnectionLimit := Some n\<rparr>,
                  is_updated := True\<rparr>
          else st)"

text \<open>The six blocks before the accept list, which cannot raise.\<close>

definition modify_prefix ::
  "update_args \<Rightarrow> service_attachment \<Rightarrow> modify_state \<Rightarrow> modify_state" where
  "modify_prefix args old st =
     modify_reject_list args old
       (modify_nat_subnets args old
         (modify_proxy_protocol args old
           (modify_connection_preference args old
             (modify_description args old
               (modify_target_service args st)))))"

definition modify ::
  "bool \<Rightarrow> update_args \<Rightarrow> service_attachment \<Rightarrow> string list \<Rightarrow>
     sa_error + (service_attachment option \<times> string list)" where
  "modify ebs args old cleared =
     (let st6 = modify_prefix args old \<lparr>replacement = old, cleared_fields = cleared, is_updated = False\<rparr>
      in case modify_accept_list ebs args old st6 of Inl e \<Rightarrow> Inl e
         | Inr st7 \<Rightarrow>
             (case modify_remove_obsolete ebs args st7 of Inl e \<Rightarrow> Inl e
              | Inr st8 \<Rightarrow>
                  let st10 = modify_propagated_connection_limit args old
                               (modify_reconcile_connections args old st8)
                  in Inr (if is_updated st10 then Some (replacement st10) else None,
                          cleared_fields st10)))"

section \<open>Run (lines 143-150, 282-299) and the release tracks (lines 302-335)\<close>

record sa_ref =
  ref_project :: string
  ref_region :: string
  ref_name :: string

record patch_request =
  project :: string
  region :: string
  serviceAttachment :: string
  serviceAttachmentResource :: service_attachment

definition get_patch_request :: "sa_ref \<Rightarrow> service_attachment \<Rightarrow> patch_request" where
  "get_patch_request ref r =
     \<lparr>project = ref_project ref, region = ref_region ref, serviceAttachment = ref_name ref,
      serviceAttachmentResource = r\<rparr>"

text \<open>What \<open>Run\<close> does after fetching: return the old resource, or issue the patch
  inside \<open>IncludeFields(cleared_fields)\<close>.\<close>

datatype run_result =
    ReturnOld service_attachment
  | IssuePatch patch_request "string list"

definition run ::
  "bool \<Rightarrow> sa_ref \<Rightarrow> service_attachment \<Rightarrow> update_args \<Rightarrow> sa_error + run_result" where
  "run ebs ref old args =
     (case modify ebs args old [] of Inl e \<Rightarrow> Inl e
      | Inr (None, _) \<Rightarrow> Inr (ReturnOld old)
      | Inr (Some r, cl) \<Rightarrow> Inr (IssuePatch (get_patch_request ref r) cl))"

datatype release_track = GA | BETA | ALPHA

fun support_endpoint_based_security_arg :: "release_track \<Rightarrow> bool" where
  "support_endpoint_based_security_arg GA = False"
| "support_endpoint_based_security_arg BETA = True"
| "support_endpoint_based_security_arg ALPHA = True"

definition update_run ::
  "release_track \<Rightarrow> sa_ref \<Rightarrow> service_attachment \<Rightarrow> update_args \<Rightarrow> sa_error + run_result" where
  "update_run track ref old args = run (support_endpoint_based_security_arg track) ref old args"

section \<open>Properties\<close>

subsection \<open>What each block writes\<close>

named_theorems modify_step_simps "the effect of each _Modify block on the replacement"

lemma replacement_modify_target_service [modify_step_simps]:
  "replacement (modify_target_service args st) =
     (replacement st)\<lparr>targetService :=
        (case arg_target_service args of None \<Rightarrow> targetService (replacement st) | Some t \<Rightarrow> Some t)\<rparr>"
  by (simp add: modify_target_service_def split: option.split)

lemma replacement_modify_description [modify_step_simps]:
  "replacement (modify_description args old st) =
     (replacement st)\<lparr>description :=
        (case arg_description args of None \<Rightarrow> description (replacement st)
         | Some d \<Rightarrow> if Some d \<noteq> description old then Some d else description (replacement st))\<rparr>"
  by (simp add: modify_description_def split: option.split)

lemma replacement_modify_connection_preference [modify_step_simps]:
  "replacement (modify_connection_preference args old st) =
     (replacement st)\<lparr>connectionPreference :=
        (if arg_connection_preference args = None then connectionPreference (replacement st)
         else if get_connection_preference (arg_connection_preference args) \<noteq> connectionPreference old
         then get_connection_preference (arg_connection_preference args)
         else connectionPreference (replacement st))\<rparr>"
  by (simp add: modify_connection_preference_def Let_def)

lemma replacement_modify_proxy_protocol [modify_step_simps]:
  "replacement (modify_proxy_protocol args old st) =
     (replacement st)\<lparr>enableProxyProtocol :=
        (case arg_enable_proxy_protocol args of None \<Rightarrow> enableProxyProtocol (replacement st)
         | Some b \<Rightarrow> if Some b \<noteq> enableProxyProtocol old then Some b
                   else enableProxyProtocol (replacement st))\<rparr>"
  by (simp add: modify_proxy_protocol_def split: option.split)

lemma replacement_modify_nat_subnets [modify_step_simps]:
  "replacement (modify_nat_subnets args old st) =
     (replacement st)\<lparr>natSubnets :=
        (case arg_nat_subnets args of None \<Rightarrow> natSubnets (replacement st)
         | Some ns \<Rightarrow> if sort ns \<noteq> sort (natSubnets old) then sort ns
                    else natSubnets (replacement st))\<rparr>"
  by (simp add: modify_nat_subnets_def Let_def split: option.split)

lemma replacement_modify_reject_list [modify_step_simps]:
  "replacement (modify_reject_list args old st) =
     (replacement st)\<lparr>consumerRejectLists :=
        (case arg_consumer_reject_list args of None \<Rightarrow> consumerRejectLists (replacement st)
         | Some l \<Rightarrow> if sort l \<noteq> sort (consumerRejectLists old) then sort l
                   else consumerRejectLists (replacement st))\<rparr>"
  by (simp add: modify_reject_list_def Let_def split: option.split)

lemma replacement_modify_reconcile_connections [modify_step_simps]:
  "replacement (modify_reconcile_connections args old st) =
     (replacement st)\<lparr>reconcileConnections :=
        (case arg_reconcile_connections args of None \<Rightarrow> reconcileConnections (replacement st)
         | Some b \<Rightarrow> if Some b \<noteq> reconcileConnections old then Some b
                   else reconcileConnections (replacement st))\<rparr>"
  by (simp add: modify_reconcile_connections_def split: option.split)

lemma replacement_modify_propagated_connection_limit [modify_step_simps]:
  "replacement (modify_propagated_connection_limit args old st) =
     (replacement st)\<lparr>propagatedConnectionLimit :=
        (case arg_propagated_connection_limit args of None \<Rightarrow> propagatedConnectionLimit (replacement st)
         | Some n \<Rightarrow> if Some n \<noteq> propagatedConnectionLimit old then Some n
                   else propagatedConnectionLimit (replacement st))\<rparr>"
  by (simp add: modify_propagated_connection_limit_def split: option.split)

lemma modify_accept_list_Inr:
  "modify_accept_list ebs args old st = Inr st' \<Longrightarrow>
     replacement st' = (replacement st)\<lparr>consumerAcceptLists := consumerAcceptLists (replacement st')\<rparr>"
  by (auto simp: modify_accept_list_def Let_def split: option.splits sum.splits if_splits)

lemma modify_accept_list_None:
  "arg_consumer_accept_list args = None \<Longrightarrow> modify_accept_list ebs args old st = Inr st"
  by (simp add: modify_accept_list_def)

lemma remove_obsolete_endpoint_entries_fst:
  "fst (remove_obsolete_endpoint_entries r cl) =
     r\<lparr>consumerAcceptLists := consumerAcceptLists (fst (remove_obsolete_endpoint_entries r cl)),
       consumerRejectLists := consumerRejectLists (fst (remove_obsolete_endpoint_entries r cl))\<rparr>"
  by (simp add: remove_obsolete_endpoint_entries_def clean_abs Let_def)

lemma modify_remove_obsolete_Inr:
  "modify_remove_obsolete ebs args st = Inr st' \<Longrightarrow>
     replacement st' = (replacement st)\<lparr>consumerAcceptLists := consumerAcceptLists (replacement st'),
       consumerRejectLists := consumerRejectLists (replacement st')\<rparr>"
  using remove_obsolete_endpoint_entries_fst [of "replacement st" "cleared_fields st"]
  by (auto simp: modify_remove_obsolete_def split: prod.splits if_splits)

lemma modify_remove_obsolete_off:
  "\<not> (ebs \<and> arg_remove_obsolete_endpoint_accept_reject_entries args) \<Longrightarrow>
     modify_remove_obsolete ebs args st = Inr st"
  by (auto simp: modify_remove_obsolete_def)

lemmas modify_step_defs =
  modify_target_service_def modify_description_def modify_connection_preference_def
  modify_proxy_protocol_def modify_nat_subnets_def modify_reject_list_def
  modify_reconcile_connections_def modify_propagated_connection_limit_def

lemma modify_prefix_no_args: "modify_prefix no_update_args old st = st"
  by (simp add: modify_prefix_def modify_step_defs)

lemma modify_last_blocks_no_args:
  "modify_propagated_connection_limit no_update_args old (modify_reconcile_connections no_update_args old st) = st"
  by (simp add: modify_step_defs)

lemma cleared_fields_modify_prefix:
  "cleared_fields (modify_prefix args old st) =
     cleared_fields st @
     (case arg_consumer_reject_list args of None \<Rightarrow> []
      | Some l \<Rightarrow> if sort l \<noteq> sort (consumerRejectLists old) \<and> sort l = [] then [''consumerRejectLists''] else [])"
  by (simp add: modify_prefix_def modify_step_defs Let_def split: option.split)

lemma cleared_fields_last_blocks [simp]:
  "cleared_fields (modify_reconcile_connections args old st) = cleared_fields st"
  "cleared_fields (modify_propagated_connection_limit args old st) = cleared_fields st"
  by (simp_all add: modify_step_defs split: option.split)

lemma cleared_fields_modify_accept_list:
  "modify_accept_list ebs args old st = Inr st' \<Longrightarrow>
     cleared_fields st' = cleared_fields st \<or> cleared_fields st' = cleared_fields st @ [''consumerAcceptLists'']"
  by (auto simp: modify_accept_list_def Let_def split: option.splits sum.splits if_splits)

lemma modify_accept_list_ok:
  "(\<forall>ds. arg_consumer_accept_list args = Some ds \<longrightarrow> (\<exists>l. get_consumer_accept_list_based_on_arg ebs ds = Inr l)) \<Longrightarrow>
     \<exists>st'. modify_accept_list ebs args old st = Inr st'"
  by (auto simp: modify_accept_list_def Let_def split: option.splits sum.splits)

lemma modify_remove_obsolete_on:
  "ebs \<and> arg_remove_obsolete_endpoint_accept_reject_entries args \<Longrightarrow>
   modify_remove_obsolete ebs args st = Inr st' \<Longrightarrow>
     arg_consumer_accept_list args = None \<and> arg_consumer_reject_list args = None \<and>
     (replacement st', cleared_fields st', is_updated st') =
       remove_obsolete_endpoint_entries (replacement st) (cleared_fields st)"
  by (auto simp: modify_remove_obsolete_def split: prod.splits if_splits)

text \<open>Pruning reads only the two lists and the connected endpoints.\<close>

lemma remove_obsolete_endpoint_entries_cong:
  assumes "consumerAcceptLists r = consumerAcceptLists r'" "consumerRejectLists r = consumerRejectLists r'"
    "connectedEndpoints r = connectedEndpoints r'"
  shows "snd (remove_obsolete_endpoint_entries r cl) = snd (remove_obsolete_endpoint_entries r' cl)"
  using assms by (simp add: remove_obsolete_endpoint_entries_def clean_abs Let_def get_connected_endpoint_ids_def)

lemma remove_obsolete_endpoint_entries_unchanged:
  "\<not> snd (snd (remove_obsolete_endpoint_entries r cl)) \<Longrightarrow>
     fst (snd (remove_obsolete_endpoint_entries r cl)) = cl"
  by (simp add: remove_obsolete_endpoint_entries_def clean_abs Let_def)

lemma remove_obsolete_endpoint_entries_distinct:
  "distinct cl \<Longrightarrow> distinct (fst (snd (remove_obsolete_endpoint_entries r cl)))"
  by (simp add: remove_obsolete_endpoint_entries_def clean_abs Let_def cleared_after_clean_distinct)

lemma remove_obsolete_endpoint_entries_cleared_subset:
  assumes "''consumerAcceptLists'' \<in> S" and "''consumerRejectLists'' \<in> S" and "set cl \<subseteq> S"
  shows "set (fst (snd (remove_obsolete_endpoint_entries r cl))) \<subseteq> S"
proof -
  have acc: "set (if b then cleared_after_clean ''consumerAcceptLists'' c cl else cl) \<subseteq> S" for b c
    using cleared_after_clean_subset [OF assms(1,3), of c] assms(3) by (cases b) simp_all
  have "set (if b' then cleared_after_clean ''consumerRejectLists'' c' X else X) \<subseteq> S"
    if "set X \<subseteq> S" for b' c' X
    using cleared_after_clean_subset [OF assms(2) that, of c'] that by (cases b') simp_all
  from this [OF acc] show ?thesis
    by (simp add: remove_obsolete_endpoint_entries_def clean_abs Let_def split del: if_split)
qed

subsection \<open>The patch builder\<close>

text \<open>
  How a successful run of \<open>modify\<close> decomposes: the six blocks that cannot raise,
  the accept-list block, the obsolete-entry block, and the last two blocks.
\<close>

lemma modify_Inr_cases:
  assumes "modify ebs args old cl = Inr res"
  obtains st7 st8 where
    "modify_accept_list ebs args old
       (modify_prefix args old \<lparr>replacement = old, cleared_fields = cl, is_updated = False\<rparr>) = Inr st7"
    "modify_remove_obsolete ebs args st7 = Inr st8"
    "res = (let st10 = modify_propagated_connection_limit args old (modify_reconcile_connections args old st8)
            in (if is_updated st10 then Some (replacement st10) else None, cleared_fields st10))"
  using assms by (auto simp: modify_def Let_def split: sum.splits)

text \<open>
  C1: the frame property. A resource the builder returns differs from the old one
  only in fields whose flag was given, and in the two lists when the
  obsolete-entry pruning ran; the connected endpoints are never touched.
\<close>

theorem modify_frame:
  assumes "modify ebs args old cl = Inr (Some r, cl')"
  shows "(arg_target_service args = None \<longrightarrow> targetService r = targetService old) \<and>
    (arg_description args = None \<longrightarrow> description r = description old) \<and>
    (arg_connection_preference args = None \<longrightarrow> connectionPreference r = connectionPreference old) \<and>
    (arg_enable_proxy_protocol args = None \<longrightarrow> enableProxyProtocol r = enableProxyProtocol old) \<and>
    (arg_nat_subnets args = None \<longrightarrow> natSubnets r = natSubnets old) \<and>
    (arg_reconcile_connections args = None \<longrightarrow> reconcileConnections r = reconcileConnections old) \<and>
    (arg_propagated_connection_limit args = None \<longrightarrow>
       propagatedConnectionLimit r = propagatedConnectionLimit old) \<and>
    (arg_consumer_accept_list args = None \<and>
     \<not> (ebs \<and> arg_remove_obsolete_endpoint_accept_reject_entries args) \<longrightarrow>
       consumerAcceptLists r = consumerAcceptLists old) \<and>
    (arg_consumer_reject_list args = None \<and>
     \<not> (ebs \<and> arg_remove_obsolete_endpoint_accept_reject_entries args) \<longrightarrow>
       consumerRejectLists r = consumerRejectLists old) \<and>
    connectedEndpoints r = connectedEndpoints old"
proof -
  let ?st6 = "modify_prefix args old \<lparr>replacement = old, cleared_fields = cl, is_updated = False\<rparr>"
  obtain st7 st8 where a: "modify_accept_list ebs args old ?st6 = Inr st7"
    and b: "modify_remove_obsolete ebs args st7 = Inr st8"
    and r: "r = replacement (modify_propagated_connection_limit args old (modify_reconcile_connections args old st8))"
    using modify_Inr_cases [OF assms] by (fastforce simp: Let_def split: if_splits)
  obtain a' where r7: "replacement st7 = (replacement ?st6)\<lparr>consumerAcceptLists := a'\<rparr>"
    using modify_accept_list_Inr [OF a] by blast
  obtain a'' b'' where r8: "replacement st8 = (replacement st7)\<lparr>consumerAcceptLists := a'', consumerRejectLists := b''\<rparr>"
    using modify_remove_obsolete_Inr [OF b] by blast
  have acc: "arg_consumer_accept_list args = None \<Longrightarrow> st7 = ?st6"
    using a by (simp add: modify_accept_list_None)
  have rem: "\<not> (ebs \<and> arg_remove_obsolete_endpoint_accept_reject_entries args) \<Longrightarrow> st8 = st7"
    using b by (simp add: modify_remove_obsolete_off)
  note defs = r r8 r7 modify_prefix_def modify_step_simps
  have "arg_target_service args = None \<longrightarrow> targetService r = targetService old"
    by (simp add: defs)
  moreover have "arg_description args = None \<longrightarrow> description r = description old"
    by (simp add: defs)
  moreover have "arg_connection_preference args = None \<longrightarrow> connectionPreference r = connectionPreference old"
    by (simp add: defs)
  moreover have "arg_enable_proxy_protocol args = None \<longrightarrow> enableProxyProtocol r = enableProxyProtocol old"
    by (simp add: defs)
  moreover have "arg_nat_subnets args = None \<longrightarrow> natSubnets r = natSubnets old"
    by (simp add: defs)
  moreover have "arg_reconcile_connections args = None \<longrightarrow> reconcileConnections r = reconcileConnections old"
    by (simp add: defs)
  moreover have "arg_propagated_connection_limit args = None \<longrightarrow>
       propagatedConnectionLimit r = propagatedConnectionLimit old"
    by (simp add: defs)
  moreover have "arg_consumer_accept_list args = None \<and>
     \<not> (ebs \<and> arg_remove_obsolete_endpoint_accept_reject_entries args) \<longrightarrow>
       consumerAcceptLists r = consumerAcceptLists old"
    using acc rem by (simp add: r modify_prefix_def modify_step_simps)
  moreover have "arg_consumer_reject_list args = None \<and>
     \<not> (ebs \<and> arg_remove_obsolete_endpoint_accept_reject_entries args) \<longrightarrow>
       consumerRejectLists r = consumerRejectLists old"
    using acc rem by (simp add: r r7 modify_prefix_def modify_step_simps)
  moreover have "connectedEndpoints r = connectedEndpoints old"
    by (simp add: defs)
  ultimately show ?thesis by blast
qed


text \<open>
  C4: when no update flag is given the builder reports no change and leaves the
  clear-list as it was, so the command returns the fetched resource and issues no
  request.
\<close>

theorem run_no_flags: "run ebs ref old no_update_args = Inr (ReturnOld old)"
proof -
  have "modify ebs no_update_args old [] = Inr (None, [])"
    by (simp add: modify_def modify_prefix_no_args modify_last_blocks_no_args
        modify_accept_list_None modify_remove_obsolete_off)
  then show ?thesis by (simp add: run_def)
qed


text \<open>
  C3: with endpoint-based security, asking to remove obsolete entries together with
  an explicit accept or reject list raises ConflictingArguments, unless parsing the
  accept list raised first.
\<close>

theorem modify_conflicting_arguments:
  assumes "ebs" and "arg_remove_obsolete_endpoint_accept_reject_entries args"
    and "arg_consumer_accept_list args \<noteq> None \<or> arg_consumer_reject_list args \<noteq> None"
    and "\<forall>ds. arg_consumer_accept_list args = Some ds \<longrightarrow>
           (\<exists>l. get_consumer_accept_list_based_on_arg ebs ds = Inr l)"
  shows "modify ebs args old cl = Inl ConflictingArguments"
proof -
  obtain st7 where a: "modify_accept_list ebs args old
      (modify_prefix args old \<lparr>replacement = old, cleared_fields = cl, is_updated = False\<rparr>) = Inr st7"
    using modify_accept_list_ok [OF assms(4)] by blast
  have "modify_remove_obsolete ebs args st7 = Inl ConflictingArguments"
    using assms(1-3) by (simp add: modify_remove_obsolete_def)
  with a show ?thesis by (simp add: modify_def)
qed


text \<open>
  C2: the obsolete-entry block overwrites is_updated. When pruning finds nothing to
  remove and the two later flags are absent, the builder reports no change, even
  if the target, description, preference, proxy-protocol or subnet flags changed
  the copy: those changes are dropped and no request is sent.
\<close>

theorem modify_prune_discards_updates:
  assumes "ebs" and "arg_remove_obsolete_endpoint_accept_reject_entries args"
    and "arg_consumer_accept_list args = None" and "arg_consumer_reject_list args = None"
    and "arg_reconcile_connections args = None" and "arg_propagated_connection_limit args = None"
    and "\<not> snd (snd (remove_obsolete_endpoint_entries old cl))"
  shows "modify ebs args old cl = Inr (None, cl)"
proof -
  let ?st6 = "modify_prefix args old \<lparr>replacement = old, cleared_fields = cl, is_updated = False\<rparr>"
  let ?R = "remove_obsolete_endpoint_entries (replacement ?st6) (cleared_fields ?st6)"
  have st7: "modify_accept_list ebs args old ?st6 = Inr ?st6"
    using assms(3) by (rule modify_accept_list_None)
  have cl6: "cleared_fields ?st6 = cl"
    using assms(4) by (simp add: cleared_fields_modify_prefix)
  have "consumerAcceptLists (replacement ?st6) = consumerAcceptLists old"
    "consumerRejectLists (replacement ?st6) = consumerRejectLists old"
    "connectedEndpoints (replacement ?st6) = connectedEndpoints old"
    using assms(4) by (simp_all add: modify_prefix_def modify_step_simps)
  then have same: "snd ?R = snd (remove_obsolete_endpoint_entries old cl)"
    unfolding cl6 by (rule remove_obsolete_endpoint_entries_cong)
  have st8: "modify_remove_obsolete ebs args ?st6 =
      Inr \<lparr>replacement = fst ?R, cleared_fields = fst (snd ?R), is_updated = snd (snd ?R)\<rparr>"
    using assms(1-4) by (simp add: modify_remove_obsolete_def split: prod.split)
  have "\<not> snd (snd ?R)" and "fst (snd ?R) = cl"
    using same assms(7) remove_obsolete_endpoint_entries_unchanged [of old cl] by simp_all
  with st7 st8 assms(5,6) show ?thesis
    by (simp add: modify_def Let_def modify_reconcile_connections_def
        modify_propagated_connection_limit_def)
qed

text \<open>
  C5: reordering an unchanged reject list is not an update: the lists are
  compared after sorting.
\<close>

theorem modify_reject_list_reorder:
  assumes "mset l = mset (consumerRejectLists old)"
  shows "modify ebs (no_update_args\<lparr>arg_consumer_reject_list := Some l\<rparr>) old cl = Inr (None, cl)"
proof -
  have "sort l = sort (consumerRejectLists old)"
    using assms by (rule sort_eq_if_mset_eq)
  then show ?thesis
    by (simp add: modify_def modify_prefix_def modify_step_defs modify_accept_list_def
        modify_remove_obsolete_def)
qed


text \<open>
  C6: reordering an unchanged accept list is not an update either, provided no two
  of its entries share a sort key (identifier and limit); the sort is stable, so
  entries with equal keys keep their input order.
\<close>

theorem modify_accept_list_reorder:
  assumes "get_consumer_accept_list_based_on_arg ebs ds = Inr l"
    and "mset l = mset (consumerAcceptLists old)"
    and "inj_on (get_project_or_network_or_endpoint_based_on_arg ebs) (set l)"
  shows "modify ebs (no_update_args\<lparr>arg_consumer_accept_list := Some ds\<rparr>) old cl = Inr (None, cl)"
proof -
  let ?k = "get_project_or_network_or_endpoint_based_on_arg ebs"
  have "sort_key ?k l = sort_key ?k (consumerAcceptLists old)"
    using assms(2,3) by (rule sort_key_eq_if_mset_eq)
  with assms(1) show ?thesis
    by (simp add: modify_def modify_prefix_def modify_step_defs modify_accept_list_def
        modify_remove_obsolete_def)
qed

lemma modify_accept_list_mono:
  "modify_accept_list ebs args old st = Inr st' \<Longrightarrow>
     (is_updated st \<longrightarrow> is_updated st') \<and> set (cleared_fields st) \<subseteq> set (cleared_fields st')"
  by (auto simp: modify_accept_list_def Let_def split: option.splits sum.splits if_splits)

lemma is_updated_last_blocks:
  "is_updated st \<Longrightarrow> is_updated (modify_propagated_connection_limit args old (modify_reconcile_connections args old st))"
  by (simp add: modify_step_defs split: option.split)

lemma get_consumer_accept_list_based_on_arg_Inl:
  "get_consumer_accept_list_based_on_arg False ds = Inl e \<Longrightarrow>
     e = EndpointUrlNotSupported \<or> (\<exists>x. e = LimitNotInt x)"
  by (auto simp: get_consumer_accept_list_based_on_arg_def get_consumer_accept_list_def
      dest!: map_err_Inl_D split: if_splits sum.splits)

text \<open>
  The clear-list discipline of the whole builder, started from an empty list: no
  field twice, and only the two list fields that may be cleared.
\<close>

lemma modify_cleared_fields_wf:
  assumes "modify ebs args old [] = Inr (ro, cl)"
  shows "distinct cl \<and> set cl \<subseteq> {''consumerRejectLists'', ''consumerAcceptLists''}"
proof -
  let ?st6 = "modify_prefix args old \<lparr>replacement = old, cleared_fields = [], is_updated = False\<rparr>"
  obtain st7 st8 where a: "modify_accept_list ebs args old ?st6 = Inr st7"
    and b: "modify_remove_obsolete ebs args st7 = Inr st8"
    and res: "(ro, cl) = (let st10 = modify_propagated_connection_limit args old (modify_reconcile_connections args old st8)
            in (if is_updated st10 then Some (replacement st10) else None, cleared_fields st10))"
    using modify_Inr_cases [OF assms] by blast
  from res have cl: "cl = cleared_fields st8" by (simp add: Let_def)
  have d6: "distinct (cleared_fields ?st6)" and nA: "''consumerAcceptLists'' \<notin> set (cleared_fields ?st6)"
    by (simp_all add: cleared_fields_modify_prefix split: option.split)
  have s6: "set (cleared_fields ?st6) \<subseteq> {''consumerRejectLists''}"
    by (auto simp: cleared_fields_modify_prefix split: option.split if_splits)
  have d7: "distinct (cleared_fields st7)"
    and s7: "set (cleared_fields st7) \<subseteq> {''consumerRejectLists'', ''consumerAcceptLists''}"
    using cleared_fields_modify_accept_list [OF a] d6 nA s6 by auto
  show ?thesis
  proof (cases "ebs \<and> arg_remove_obsolete_endpoint_accept_reject_entries args")
    case True
    have on: "arg_consumer_accept_list args = None \<and> arg_consumer_reject_list args = None \<and>
        (replacement st8, cleared_fields st8, is_updated st8) =
          remove_obsolete_endpoint_entries (replacement st7) (cleared_fields st7)"
      by (rule modify_remove_obsolete_on [OF True b])
    then have none: "arg_consumer_accept_list args = None" "arg_consumer_reject_list args = None"
      by simp_all
    have r8: "cleared_fields st8 = fst (snd (remove_obsolete_endpoint_entries (replacement st7) (cleared_fields st7)))"
      using arg_cong [OF on [THEN conjunct2, THEN conjunct2], of "\<lambda>x. fst (snd x)"] by simp
    from none(1) a have "st7 = ?st6" by (simp add: modify_accept_list_None)
    with none(2) have "cleared_fields st7 = []" by (simp add: cleared_fields_modify_prefix)
    then show ?thesis
      using cl r8 remove_obsolete_endpoint_entries_distinct [of "[]"]
        remove_obsolete_endpoint_entries_cleared_subset
          [of "{''consumerRejectLists'', ''consumerAcceptLists''}" "[]" "replacement st7"] by auto
  next
    case False
    with b have "st8 = st7" by (simp add: modify_remove_obsolete_off)
    with cl d7 s7 show ?thesis by simp
  qed
qed

text \<open>
  C14: the clear-list the builder hands to the request never names a field twice.
\<close>

theorem modify_cleared_fields_distinct:
  assumes "modify ebs args old [] = Inr (ro, cl)"
  shows "distinct cl"
  using modify_cleared_fields_wf [OF assms] by simp

text \<open>
  C15: an explicitly empty reject list that differs from the old one is sent as a
  patch with the list empty and the field on the clear-list, so the server clears
  it instead of ignoring the absent field.
\<close>

theorem modify_explicit_empty_reject_list:
  assumes "arg_consumer_reject_list args = Some []" and "consumerRejectLists old \<noteq> []"
    and "modify ebs args old [] = Inr (ro, cl)"
  shows "\<exists>r. ro = Some r \<and> consumerRejectLists r = [] \<and> ''consumerRejectLists'' \<in> set cl"
proof -
  let ?st6 = "modify_prefix args old \<lparr>replacement = old, cleared_fields = [], is_updated = False\<rparr>"
  obtain st7 st8 where a: "modify_accept_list ebs args old ?st6 = Inr st7"
    and b: "modify_remove_obsolete ebs args st7 = Inr st8"
    and res: "(ro, cl) = (let st10 = modify_propagated_connection_limit args old (modify_reconcile_connections args old st8)
            in (if is_updated st10 then Some (replacement st10) else None, cleared_fields st10))"
    using modify_Inr_cases [OF assms(3)] by blast
  have "sort (consumerRejectLists old) \<noteq> []"
    using assms(2) by (metis length_0_conv length_sort)
  then have u6: "is_updated ?st6" and c6: "''consumerRejectLists'' \<in> set (cleared_fields ?st6)"
    and r6: "consumerRejectLists (replacement ?st6) = []"
    using assms(1)
    by (simp_all add: modify_prefix_def modify_reject_list_def modify_step_simps Let_def cleared_fields_modify_prefix)
  have "st8 = st7"
    using b assms(1) modify_remove_obsolete_on [of ebs args st7 st8]
      modify_remove_obsolete_off [of ebs args st7] by (cases "ebs \<and> arg_remove_obsolete_endpoint_accept_reject_entries args") auto
  moreover have "is_updated st7" and "''consumerRejectLists'' \<in> set (cleared_fields st7)"
    using modify_accept_list_mono [OF a] u6 c6 by auto
  moreover have "consumerRejectLists (replacement st7) = []"
    using modify_accept_list_Inr [OF a] r6 by (metis service_attachment.select_convs(4) service_attachment.surjective
        service_attachment.update_convs(3))
  ultimately show ?thesis
    using res is_updated_last_blocks [of st8 args old]
    by (simp add: Let_def modify_step_simps split: option.split)
qed

text \<open>
  C16: specifying the target service marks the resource updated without comparing
  it with the old one: giving the current target yields a patch of the unchanged
  resource.
\<close>

theorem modify_same_target_patches:
  assumes "targetService old = Some t"
  shows "modify ebs (no_update_args\<lparr>arg_target_service := Some t\<rparr>) old cl = Inr (Some old, cl)"
proof -
  have "old\<lparr>targetService := Some t\<rparr> = old"
    using assms [symmetric] by simp
  then show ?thesis
    by (simp add: modify_def modify_prefix_def modify_step_defs modify_accept_list_None
        modify_remove_obsolete_off)
qed

text \<open>
  C17: the GA command never raises ConflictingArguments: without endpoint-based
  security the obsolete-entry flag is ignored, and on an old resource whose accept
  entries each name a project or a network and carry a limit (so that the GA sort
  key compares them without \<open>TypeError\<close>) the only errors are those of the basic
  accept-list normalizer: an endpoint URL, or a limit that \<open>int()\<close> rejects.
\<close>

theorem update_run_GA_errors:
  assumes "\<forall>c\<in>set (consumerAcceptLists old).
             fst (get_project_or_network c) \<noteq> None \<and> connectionLimit c \<noteq> None"
    and "update_run GA ref old args = Inl e"
  shows "e = EndpointUrlNotSupported \<or> (\<exists>x. e = LimitNotInt x)"
proof -
  from assms(2) have m: "modify False args old [] = Inl e"
    by (auto simp: update_run_def run_def split: sum.splits option.splits prod.splits)
  show ?thesis
  proof (cases "modify_accept_list False args old
      (modify_prefix args old \<lparr>replacement = old, cleared_fields = [], is_updated = False\<rparr>)")
    case (Inl e')
    then obtain ds where "get_consumer_accept_list_based_on_arg False ds = Inl e'"
      by (auto simp: modify_accept_list_def Let_def split: option.splits sum.splits if_splits)
    moreover from m Inl have "e' = e" by (simp add: modify_def)
    ultimately show ?thesis by (blast dest: get_consumer_accept_list_based_on_arg_Inl)
  next
    case (Inr st7)
    with m show ?thesis by (simp add: modify_def modify_remove_obsolete_off Let_def)
  qed
qed

subsection \<open>Witnesses\<close>

lemmas modify_eval =
  modify_def modify_prefix_def modify_step_defs modify_accept_list_def modify_remove_obsolete_def
  remove_obsolete_endpoint_entries_def clean_obsolete_accepted_endpoint_urls_def
  clean_obsolete_rejected_endpoint_urls_def get_connected_endpoint_ids_def
  get_consumer_accept_list_based_on_arg_def get_consumer_accept_list_def get_consumer_accept_list_ebs_def
  get_project_or_network_or_endpoint_based_on_arg_def get_project_or_network_def
  get_project_or_network_or_endpoint_def empty_service_attachment_def py_int_eval

theorem modify_frame_witness:
  "modify False (no_update_args\<lparr>arg_description := Some ''d''\<rparr>) empty_service_attachment [] =
     Inr (Some (empty_service_attachment\<lparr>description := Some ''d''\<rparr>), []) \<and>
   targetService (empty_service_attachment\<lparr>description := Some ''d''\<rparr>) = targetService empty_service_attachment"
proof -
  have h: "modify False (no_update_args\<lparr>arg_description := Some ''d''\<rparr>) empty_service_attachment [] =
     Inr (Some (empty_service_attachment\<lparr>description := Some ''d''\<rparr>), [])"
    by (simp add: modify_eval)
  show ?thesis using h modify_frame [OF h] by simp
qed

theorem modify_conflicting_arguments_witness:
  "modify True (no_update_args\<lparr>arg_consumer_reject_list := Some [],
      arg_remove_obsolete_endpoint_accept_reject_entries := True\<rparr>) empty_service_attachment [] =
   Inl ConflictingArguments"
  using modify_conflicting_arguments [of True "no_update_args\<lparr>arg_consumer_reject_list := Some [],
      arg_remove_obsolete_endpoint_accept_reject_entries := True\<rparr>"] by simp

theorem modify_prune_discards_updates_witness:
  "modify True (no_update_args\<lparr>arg_description := Some ''new'',
      arg_remove_obsolete_endpoint_accept_reject_entries := True\<rparr>) empty_service_attachment [] =
   Inr (None, [])"
proof -
  have "\<not> snd (snd (remove_obsolete_endpoint_entries empty_service_attachment []))"
    by (simp add: modify_eval)
  then show ?thesis
    using modify_prune_discards_updates [of True "no_update_args\<lparr>arg_description := Some ''new'',
      arg_remove_obsolete_endpoint_accept_reject_entries := True\<rparr>" empty_service_attachment "[]"]
    by simp
qed

theorem modify_reject_list_reorder_witness:
  "modify True (no_update_args\<lparr>arg_consumer_reject_list := Some [''b'', ''a'']\<rparr>)
     (empty_service_attachment\<lparr>consumerRejectLists := [''a'', ''b'']\<rparr>) [] = Inr (None, [])"
  using modify_reject_list_reorder [of "[''b'', ''a'']" "empty_service_attachment\<lparr>consumerRejectLists := [''a'', ''b'']\<rparr>"]
  by simp

theorem modify_accept_list_reorder_witness:
  "modify False (no_update_args\<lparr>arg_consumer_accept_list := Some [[(''p1'', PyStr ''1''), (''p2'', PyStr ''2'')]]\<rparr>)
     (empty_service_attachment\<lparr>consumerAcceptLists :=
        [\<lparr>connectionLimit = Some 2, endpointUrl = None, networkUrl = None, projectIdOrNum = Some ''p2''\<rparr>,
         \<lparr>connectionLimit = Some 1, endpointUrl = None, networkUrl = None, projectIdOrNum = Some ''p1''\<rparr>]\<rparr>) [] =
   Inr (None, [])"
proof -
  let ?l = "[\<lparr>connectionLimit = Some 1, endpointUrl = None, networkUrl = None, projectIdOrNum = Some ''p1''\<rparr>,
            \<lparr>connectionLimit = Some 2, endpointUrl = None, networkUrl = None, projectIdOrNum = Some ''p2''\<rparr>]"
  have h: "get_consumer_accept_list_based_on_arg False [[(''p1'', PyStr ''1''), (''p2'', PyStr ''2'')]] = Inr ?l"
    by (simp add: modify_eval)
  have i: "inj_on (get_project_or_network_or_endpoint_based_on_arg False) (set ?l)"
    by (simp add: modify_eval)
  show ?thesis
    using modify_accept_list_reorder [OF h _ i] by simp
qed

theorem modify_cleared_fields_distinct_witness:
  "modify True (no_update_args\<lparr>arg_consumer_accept_list := Some []\<rparr>)
     (empty_service_attachment\<lparr>consumerAcceptLists :=
        [\<lparr>connectionLimit = Some 1, endpointUrl = None, networkUrl = None, projectIdOrNum = Some ''p1''\<rparr>]\<rparr>) [] =
     Inr (Some empty_service_attachment, [''consumerAcceptLists'']) \<and> distinct [''consumerAcceptLists'']"
proof -
  have h: "modify True (no_update_args\<lparr>arg_consumer_accept_list := Some []\<rparr>)
     (empty_service_attachment\<lparr>consumerAcceptLists :=
        [\<lparr>connectionLimit = Some 1, endpointUrl = None, networkUrl = None, projectIdOrNum = Some ''p1''\<rparr>]\<rparr>) [] =
     Inr (Some empty_service_attachment, [''consumerAcceptLists''])"
    by (simp add: modify_eval)
  show ?thesis using h modify_cleared_fields_distinct [OF h] by simp
qed

theorem modify_explicit_empty_reject_list_witness:
  "modify False (no_update_args\<lparr>arg_consumer_reject_list := Some []\<rparr>)
     (empty_service_attachment\<lparr>consumerRejectLists := [''p1'']\<rparr>) [] =
     Inr (Some empty_service_attachment, [''consumerRejectLists''])"
proof -
  have h: "modify False (no_update_args\<lparr>arg_consumer_reject_list := Some []\<rparr>)
     (empty_service_attachment\<lparr>consumerRejectLists := [''p1'']\<rparr>) [] =
     Inr (Some empty_service_attachment, [''consumerRejectLists''])"
    by (simp add: modify_eval)
  show ?thesis using h modify_explicit_empty_reject_list [OF _ _ h] by simp
qed

theorem modify_same_target_patches_witness:
  "modify True (no_update_args\<lparr>arg_target_service := Some ''t''\<rparr>)
     (empty_service_attachment\<lparr>targetService := Some ''t''\<rparr>) [] =
   Inr (Some (empty_service_attachment\<lparr>targetService := Some ''t''\<rparr>), [])"
  using modify_same_target_patches [of "empty_service_attachment\<lparr>targetService := Some ''t''\<rparr>" "''t''" True "[]"]
  by simp

theorem update_run_GA_errors_witness:
  "update_run GA \<lparr>ref_project = ''p'', ref_region = ''r'', ref_name = ''n''\<rparr>
     (empty_service_attachment\<lparr>consumerAcceptLists :=
        [\<lparr>connectionLimit = Some 1, endpointUrl = None, networkUrl = None, projectIdOrNum = Some ''p1''\<rparr>]\<rparr>)
     (no_update_args\<lparr>arg_consumer_accept_list := Some [[(''p2'', PyStr ''ten'')]]\<rparr>) =
   Inl (LimitNotInt (IntLiteralInvalid ''ten'')) \<and>
   (LimitNotInt (IntLiteralInvalid ''ten'') = EndpointUrlNotSupported \<or>
    (\<exists>x. LimitNotInt (IntLiteralInvalid ''ten'') = LimitNotInt x))"
proof -
  have h: "update_run GA \<lparr>ref_project = ''p'', ref_region = ''r'', ref_name = ''n''\<rparr>
     (empty_service_attachment\<lparr>consumerAcceptLists :=
        [\<lparr>connectionLimit = Some 1, endpointUrl = None, networkUrl = None, projectIdOrNum = Some ''p1''\<rparr>]\<rparr>)
     (no_update_args\<lparr>arg_consumer_accept_list := Some [[(''p2'', PyStr ''ten'')]]\<rparr>) =
   Inl (LimitNotInt (IntLiteralInvalid ''ten''))"
    by (simp add: update_run_def run_def modify_eval)
  show ?thesis
    using h update_run_GA_errors [OF _ h] by (simp add: get_project_or_network_def)
qed

end
