(* ===== verification/SA_Command.thy ===== *)
theory SA_Command
  imports SA_Update
begin

text \<open>
  The parts of \<open>surface/compute/service_attachments/update.py\<close> around \<open>_Modify\<close>:
  the flag registration of \<open>UpdateHelper.Args\<close> and \<open>Update.Args\<close>, the GET request
  of \<open>_GetOldResource\<close>, the self-links of \<open>_GetNatSubnets\<close>, and \<open>Run\<close> composed with
  the GET. The generated client's \<open>Get\<close> is a function parameter from the request to
  the resource it returns; \<open>ResolveAsResource\<close> is the framework and its result is an
  input. Also here: the properties that span the builder and the command, the
  agreement of the GA and BETA tracks, the well-formedness of accept entries and the
  bound on the clear-list.
\<close>

section \<open>Flag registration (lines 74-108 and 309-314)\<close>

text \<open>One constructor per argument that \<open>Args\<close> adds to the parser, in its order.\<close>

datatype update_flag =
    SERVICE_ATTACHMENT_ARG
  | NAT_SUBNETWORK_ARG
  | Description
  | TargetServiceArgsForUpdate
  | ConnectionPreference
  | EnableProxyProtocolForUpdate
  | ReconcileConnectionsForUpdate
  | ConsumerRejectList
  | ConsumerAcceptList
  | RemoveObsoleteEndpointEntries
  | ConsumerAcceptListOld
  | PropagatedConnectionLimit

definition update_helper_args :: "bool \<Rightarrow> update_flag list" where
  "update_helper_args support_ebs =
     [SERVICE_ATTACHMENT_ARG, NAT_SUBNETWORK_ARG, Description, TargetServiceArgsForUpdate,
      ConnectionPreference, EnableProxyProtocolForUpdate, ReconcileConnectionsForUpdate,
      ConsumerRejectList] @
     (if support_ebs then [ConsumerAcceptList, RemoveObsoleteEndpointEntries]
      else [ConsumerAcceptListOld]) @
     [PropagatedConnectionLimit]"

definition update_command_args :: "release_track \<Rightarrow> update_flag list" where
  "update_command_args track = update_helper_args (support_endpoint_based_security_arg track)"

text \<open>
  A namespace that a parser with the flags \<open>fl\<close> can produce: a flag it has not
  registered is never given. Both accept-list flags fill \<open>consumer_accept_list\<close>.
\<close>

definition parsed_by :: "update_flag list \<Rightarrow> update_args \<Rightarrow> bool" where
  "parsed_by fl args =
     ((arg_target_service args \<noteq> None \<longrightarrow> TargetServiceArgsForUpdate \<in> set fl) \<and>
      (arg_description args \<noteq> None \<longrightarrow> Description \<in> set fl) \<and>
      (arg_connection_preference args \<noteq> None \<longrightarrow> ConnectionPreference \<in> set fl) \<and>
      (arg_enable_proxy_protocol args \<noteq> None \<longrightarrow> EnableProxyProtocolForUpdate \<in> set fl) \<and>
      (arg_nat_subnets args \<noteq> None \<longrightarrow> NAT_SUBNETWORK_ARG \<in> set fl) \<and>
      (arg_consumer_reject_list args \<noteq> None \<longrightarrow> ConsumerRejectList \<in> set fl) \<and>
      (arg_consumer_accept_list args \<noteq> None \<longrightarrow>
         ConsumerAcceptList \<in> set fl \<or> ConsumerAcceptListOld \<in> set fl) \<and>
      (arg_remove_obsolete_endpoint_accept_reject_entries args \<longrightarrow>
         RemoveObsoleteEndpointEntries \<in> set fl) \<and>
      (arg_reconcile_connections args \<noteq> None \<longrightarrow> ReconcileConnectionsForUpdate \<in> set fl) \<and>
      (arg_propagated_connection_limit args \<noteq> None \<longrightarrow> PropagatedConnectionLimit \<in> set fl))"

section \<open>_GetOldResource (lines 136-141)\<close>

text \<open>\<open>ComputeServiceAttachmentsGetRequest(**service_attachment_ref.AsDict())\<close>.\<close>

record get_request =
  get_project :: string
  get_region :: string
  get_serviceAttachment :: string

definition get_old_resource_request :: "sa_ref \<Rightarrow> get_request" where
  "get_old_resource_request service_attachment_ref =
     \<lparr>get_project = ref_project service_attachment_ref, get_region = ref_region service_attachment_ref,
      get_serviceAttachment = ref_name service_attachment_ref\<rparr>"

section \<open>_GetNatSubnets (lines 152-167)\<close>

record subnet_ref =
  subnet_project :: string
  subnet_region :: string
  subnetwork :: string

text \<open>\<open>SelfLink()\<close> of a regional subnetwork reference, from the compute collection path.\<close>

definition subnet_self_link :: "subnet_ref \<Rightarrow> string" where
  "subnet_self_link r =
     ''https://compute.googleapis.com/compute/v1/'' @
     py_join (CHR ''/'') [''projects'', subnet_project r, ''regions'', subnet_region r,
                         ''subnetworks'', subnetwork r]"

definition get_nat_subnets :: "subnet_ref list option \<Rightarrow> string list" where
  "get_nat_subnets nat_subnetwork_refs =
     (case nat_subnetwork_refs of None \<Rightarrow> [] | Some refs \<Rightarrow> map subnet_self_link refs)"

section \<open>Run with the GET (lines 282-299)\<close>

definition update_helper_run ::
  "bool \<Rightarrow> (get_request \<Rightarrow> service_attachment) \<Rightarrow> sa_ref \<Rightarrow> update_args \<Rightarrow> sa_error + run_result" where
  "update_helper_run ebs get_old service_attachment_ref args =
     run ebs service_attachment_ref (get_old (get_old_resource_request service_attachment_ref)) args"

section \<open>Properties\<close>

text \<open>An accept list whose entries each name exactly one project, network or endpoint.\<close>

definition accept_entries_wf :: "service_attachment \<Rightarrow> bool" where
  "accept_entries_wf sa = (\<forall>e\<in>set (consumerAcceptLists sa). single_identifier e)"

subsection \<open>The two tracks\<close>

lemma parsed_by_GA_no_remove_obsolete:
  "parsed_by (update_command_args GA) args \<Longrightarrow> \<not> arg_remove_obsolete_endpoint_accept_reject_entries args"
  by (simp add: parsed_by_def update_command_args_def update_helper_args_def)

lemma accept_key_no_endpoint:
  "endpointUrl c = None \<Longrightarrow>
     get_project_or_network_or_endpoint_based_on_arg True c = get_project_or_network_or_endpoint_based_on_arg False c"
  by (simp add: get_project_or_network_or_endpoint_based_on_arg_def get_project_or_network_or_endpoint_def
      get_project_or_network_def)

lemma get_consumer_accept_list_based_on_arg_agree:
  "\<forall>kv\<in>set (concat ds). basic_ebs_agree kv \<Longrightarrow>
     get_consumer_accept_list_based_on_arg True ds = get_consumer_accept_list_based_on_arg False ds"
  unfolding get_consumer_accept_list_based_on_arg_def get_consumer_accept_list_def get_consumer_accept_list_ebs_def
  by (simp, rule map_err_cong, rule accept_entry_basic_eq_ebs [symmetric]) auto

lemma get_consumer_accept_list_no_endpoint:
  assumes "get_consumer_accept_list_based_on_arg False ds = Inr l" and "y \<in> set l"
  shows "endpointUrl y = None"
proof -
  have "map_err accept_entry_basic (concat (map (sort_key fst) ds)) = Inr l"
    using assms(1) by (simp add: get_consumer_accept_list_based_on_arg_def get_consumer_accept_list_def)
  from map_err_Inr_set [OF this assms(2)] obtain kv where "accept_entry_basic kv = Inr y" by blast
  then show ?thesis by (cases kv) (simp add: accept_entry_basic_Inr del: accept_entry_basic.simps)
qed

lemma modify_accept_list_tracks_agree:
  assumes h: "\<forall>ds. arg_consumer_accept_list args = Some ds \<longrightarrow> (\<forall>kv\<in>set (concat ds). basic_ebs_agree kv)"
    and o: "\<forall>e\<in>set (consumerAcceptLists old). endpointUrl e = None"
  shows "modify_accept_list True args old st = modify_accept_list False args old st"
proof (cases "arg_consumer_accept_list args")
  case None
  then show ?thesis by (simp add: modify_accept_list_None)
next
  case (Some ds)
  let ?k = "get_project_or_network_or_endpoint_based_on_arg"
  have eq: "get_consumer_accept_list_based_on_arg True ds = get_consumer_accept_list_based_on_arg False ds"
    using h Some by (simp add: get_consumer_accept_list_based_on_arg_agree)
  show ?thesis
  proof (cases "get_consumer_accept_list_based_on_arg False ds")
    case (Inl e)
    with Some eq show ?thesis by (simp add: modify_accept_list_def)
  next
    case (Inr l)
    have "sort_key (?k True) l = sort_key (?k False) l"
      by (rule sort_key_cong) (simp add: accept_key_no_endpoint get_consumer_accept_list_no_endpoint [OF Inr])
    moreover have "sort_key (?k True) (consumerAcceptLists old) = sort_key (?k False) (consumerAcceptLists old)"
      by (rule sort_key_cong) (simp add: accept_key_no_endpoint o)
    ultimately show ?thesis
      using Some Inr eq by (simp add: modify_accept_list_def Let_def)
  qed
qed

subsection \<open>Well-formed accept entries\<close>

lemma get_consumer_accept_list_based_on_arg_single:
  assumes "get_consumer_accept_list_based_on_arg ebs ds = Inr l" and "y \<in> set l"
  shows "single_identifier y"
proof (cases ebs)
  case True
  then have "map_err accept_entry_ebs (concat (map (sort_key fst) ds)) = Inr l"
    using assms(1) by (simp add: get_consumer_accept_list_based_on_arg_def get_consumer_accept_list_ebs_def)
  from map_err_Inr_set [OF this assms(2)] obtain kv where "accept_entry_ebs kv = Inr y" by blast
  then show ?thesis by (cases kv) (simp add: accept_entry_ebs_Inr del: accept_entry_ebs.simps)
next
  case False
  then have "map_err accept_entry_basic (concat (map (sort_key fst) ds)) = Inr l"
    using assms(1) by (simp add: get_consumer_accept_list_based_on_arg_def get_consumer_accept_list_def)
  from map_err_Inr_set [OF this assms(2)] obtain kv where "accept_entry_basic kv = Inr y" by blast
  then show ?thesis by (cases kv) (simp add: accept_entry_basic_Inr del: accept_entry_basic.simps)
qed

text \<open>
  A property of single accept entries that the normalizer's output has is kept by
  every block, and so by the whole builder: the accept block either keeps the list or
  replaces it by sorted normalizer output, the obsolete-entry block only filters it,
  and no other block touches it.
\<close>

lemma modify_accept_list_pred:
  assumes "modify_accept_list ebs args old st = Inr st'"
    and "\<forall>e\<in>set (consumerAcceptLists (replacement st)). P e"
    and "\<forall>ds l. get_consumer_accept_list_based_on_arg ebs ds = Inr l \<longrightarrow> (\<forall>y\<in>set l. P y)"
  shows "\<forall>e\<in>set (consumerAcceptLists (replacement st')). P e"
  using assms by (auto simp: modify_accept_list_def Let_def split: option.splits sum.splits if_splits)

lemma modify_remove_obsolete_pred:
  "modify_remove_obsolete ebs args st = Inr st' \<Longrightarrow>
     \<forall>e\<in>set (consumerAcceptLists (replacement st)). P e \<Longrightarrow>
     \<forall>e\<in>set (consumerAcceptLists (replacement st')). P e"
  by (auto simp: modify_remove_obsolete_def remove_obsolete_endpoint_entries_def clean_abs Let_def
      split: prod.splits if_splits)

lemma modify_accept_entries_pred:
  assumes "\<forall>e\<in>set (consumerAcceptLists old). P e"
    and "\<forall>ds l. get_consumer_accept_list_based_on_arg ebs ds = Inr l \<longrightarrow> (\<forall>y\<in>set l. P y)"
    and "modify ebs args old cl = Inr (Some r, cl')"
  shows "\<forall>e\<in>set (consumerAcceptLists r). P e"
proof -
  let ?st6 = "modify_prefix args old \<lparr>replacement = old, cleared_fields = cl, is_updated = False\<rparr>"
  obtain st7 st8 where a: "modify_accept_list ebs args old ?st6 = Inr st7"
    and b: "modify_remove_obsolete ebs args st7 = Inr st8"
    and r: "r = replacement (modify_propagated_connection_limit args old (modify_reconcile_connections args old st8))"
    using modify_Inr_cases [OF assms(3)] by (fastforce simp: Let_def split: if_splits)
  have "\<forall>e\<in>set (consumerAcceptLists (replacement ?st6)). P e"
    using assms(1) by (simp add: modify_prefix_def modify_step_simps)
  then have "\<forall>e\<in>set (consumerAcceptLists (replacement st7)). P e"
    using assms(2) by (rule modify_accept_list_pred [OF a])
  then have "\<forall>e\<in>set (consumerAcceptLists (replacement st8)). P e"
    by (rule modify_remove_obsolete_pred [OF b])
  then show ?thesis by (simp add: r modify_step_simps)
qed

text \<open>
  C22: on a namespace the GA parser can produce, the GA and the BETA command send the
  same request or raise the same error, provided the accept-list items have truthy
  limits and no endpoint URLs and the old resource has no endpoint entries: the
  tracks differ only in endpoint-based security.
\<close>

theorem update_run_GA_BETA_agree:
  assumes "parsed_by (update_command_args GA) args"
    and "\<forall>ds. arg_consumer_accept_list args = Some ds \<longrightarrow> (\<forall>kv\<in>set (concat ds). basic_ebs_agree kv)"
    and "\<forall>e\<in>set (consumerAcceptLists old). endpointUrl e = None"
  shows "update_run GA ref old args = update_run BETA ref old args"
proof -
  have "\<not> arg_remove_obsolete_endpoint_accept_reject_entries args"
    using assms(1) by (rule parsed_by_GA_no_remove_obsolete)
  then have rem: "modify_remove_obsolete b args st = Inr st" for b st
    by (simp add: modify_remove_obsolete_off)
  have acc: "modify_accept_list True args old st = modify_accept_list False args old st" for st
    using assms(2,3) by (rule modify_accept_list_tracks_agree)
  show ?thesis
    unfolding update_run_def support_endpoint_based_security_arg.simps run_def modify_def acc rem ..
qed

text \<open>
  C23: the nat-subnet block never puts \<open>natSubnets\<close> on the clear-list, unlike the
  reject and accept blocks: when \<open>_GetNatSubnets\<close> yields no subnet (the resolver
  returned \<open>None\<close>) the patch carries an empty \<open>natSubnets\<close> with an empty
  clear-list, so the field is left out of the request body.
\<close>

theorem modify_nat_subnets_not_cleared:
  assumes "natSubnets old \<noteq> []"
  shows "modify ebs (no_update_args\<lparr>arg_nat_subnets := Some (get_nat_subnets None)\<rparr>) old [] =
           Inr (Some (old\<lparr>natSubnets := []\<rparr>), [])"
proof -
  have "sort (natSubnets old) \<noteq> []"
    using assms by (metis length_0_conv length_sort)
  then show ?thesis
    by (simp add: get_nat_subnets_def modify_def modify_prefix_def modify_step_defs
        modify_accept_list_None modify_remove_obsolete_off)
qed

text \<open>
  C24: the clear-list of a run of the builder holds at most two field names.
\<close>

theorem modify_cleared_fields_bound:
  assumes "modify ebs args old [] = Inr (ro, cl)"
  shows "length cl \<le> 2"
proof -
  have d: "distinct cl" and s: "set cl \<subseteq> {''consumerRejectLists'', ''consumerAcceptLists''}"
    using modify_cleared_fields_wf [OF assms] by simp_all
  have "length cl = card (set cl)" using d by (simp add: distinct_card)
  also have "\<dots> \<le> card {''consumerRejectLists'', ''consumerAcceptLists''}"
    using s by (rule card_mono [rotated]) simp
  finally show ?thesis by simp
qed

text \<open>
  C25: the builder keeps the accept list well formed: if every accept entry of the old
  resource names exactly one project, network or endpoint, so does every entry of
  the resource it returns, whichever blocks ran.
\<close>

theorem modify_preserves_accept_entries_wf:
  assumes "accept_entries_wf old" and "modify ebs args old cl = Inr (Some r, cl')"
  shows "accept_entries_wf r"
proof -
  have h: "\<forall>ds l. get_consumer_accept_list_based_on_arg ebs ds = Inr l \<longrightarrow> (\<forall>y\<in>set l. single_identifier y)"
    using get_consumer_accept_list_based_on_arg_single by blast
  from assms(1) h assms(2) show ?thesis
    unfolding accept_entries_wf_def by (rule modify_accept_entries_pred)
qed

subsection \<open>Witnesses\<close>

theorem update_run_GA_BETA_agree_witness:
  "update_run GA \<lparr>ref_project = ''p'', ref_region = ''r'', ref_name = ''n''\<rparr> empty_service_attachment
     (no_update_args\<lparr>arg_consumer_accept_list := Some [[(''p1'', PyStr ''5'')]]\<rparr>) =
   update_run BETA \<lparr>ref_project = ''p'', ref_region = ''r'', ref_name = ''n''\<rparr> empty_service_attachment
     (no_update_args\<lparr>arg_consumer_accept_list := Some [[(''p1'', PyStr ''5'')]]\<rparr>)"
  using update_run_GA_BETA_agree
    [of "no_update_args\<lparr>arg_consumer_accept_list := Some [[(''p1'', PyStr ''5'')]]\<rparr>" empty_service_attachment]
  by (simp add: parsed_by_def update_command_args_def update_helper_args_def basic_ebs_agree_def
      empty_service_attachment_def)

theorem modify_nat_subnets_not_cleared_witness:
  "modify True (no_update_args\<lparr>arg_nat_subnets := Some (get_nat_subnets None)\<rparr>)
     (empty_service_attachment\<lparr>natSubnets := [''s1'']\<rparr>) [] =
   Inr (Some empty_service_attachment, [])"
  using modify_nat_subnets_not_cleared [of "empty_service_attachment\<lparr>natSubnets := [''s1'']\<rparr>" True]
  by (simp add: empty_service_attachment_def)

theorem modify_cleared_fields_bound_witness:
  "modify True (no_update_args\<lparr>arg_consumer_reject_list := Some [], arg_consumer_accept_list := Some []\<rparr>)
     (empty_service_attachment\<lparr>consumerRejectLists := [''p1''],
        consumerAcceptLists := [\<lparr>connectionLimit = Some 1, endpointUrl = None, networkUrl = None,
                                  projectIdOrNum = Some ''p2''\<rparr>]\<rparr>) [] =
     Inr (Some empty_service_attachment, [''consumerRejectLists'', ''consumerAcceptLists'']) \<and>
   length [''consumerRejectLists'', ''consumerAcceptLists''] \<le> 2"
proof -
  have h: "modify True (no_update_args\<lparr>arg_consumer_reject_list := Some [], arg_consumer_accept_list := Some []\<rparr>)
     (empty_service_attachment\<lparr>consumerRejectLists := [''p1''],
        consumerAcceptLists := [\<lparr>connectionLimit = Some 1, endpointUrl = None, networkUrl = None,
                                  projectIdOrNum = Some ''p2''\<rparr>]\<rparr>) [] =
     Inr (Some empty_service_attachment, [''consumerRejectLists'', ''consumerAcceptLists''])"
    by (simp add: modify_eval)
  show ?thesis using h modify_cleared_fields_bound [OF h] by simp
qed

theorem modify_preserves_accept_entries_wf_witness:
  "modify True (no_update_args\<lparr>arg_consumer_accept_list := Some [[(''p2'', PyStr ''4'')]]\<rparr>)
     (empty_service_attachment\<lparr>consumerAcceptLists :=
        [\<lparr>connectionLimit = Some 1, endpointUrl = None, networkUrl = None, projectIdOrNum = Some ''p1''\<rparr>]\<rparr>) [] =
     Inr (Some (empty_service_attachment\<lparr>consumerAcceptLists :=
        [\<lparr>connectionLimit = Some 4, endpointUrl = None, networkUrl = None, projectIdOrNum = Some ''p2''\<rparr>]\<rparr>), []) \<and>
   accept_entries_wf (empty_service_attachment\<lparr>consumerAcceptLists :=
        [\<lparr>connectionLimit = Some 4, endpointUrl = None, networkUrl = None, projectIdOrNum = Some ''p2''\<rparr>]\<rparr>)"
proof -
  have h: "modify True (no_update_args\<lparr>arg_consumer_accept_list := Some [[(''p2'', PyStr ''4'')]]\<rparr>)
     (empty_service_attachment\<lparr>consumerAcceptLists :=
        [\<lparr>connectionLimit = Some 1, endpointUrl = None, networkUrl = None, projectIdOrNum = Some ''p1''\<rparr>]\<rparr>) [] =
     Inr (Some (empty_service_attachment\<lparr>consumerAcceptLists :=
        [\<lparr>connectionLimit = Some 4, endpointUrl = None, networkUrl = None, projectIdOrNum = Some ''p2''\<rparr>]\<rparr>), [])"
    by (simp add: modify_eval)
  have w: "accept_entries_wf (empty_service_attachment\<lparr>consumerAcceptLists :=
        [\<lparr>connectionLimit = Some 1, endpointUrl = None, networkUrl = None, projectIdOrNum = Some ''p1''\<rparr>]\<rparr>)"
    by (simp add: accept_entries_wf_def single_identifier_def)
  show ?thesis using h modify_preserves_accept_entries_wf [OF w h] by simp
qed

end
