(* ===== verification/SA_Server.thy ===== *)
theory SA_Server
  imports SA_Command
begin

text \<open>
  What a PATCH issued by the update command does to the stored service attachment,
  and the states reachable from a resource by any sequence of update commands.
  apitools leaves unset fields and empty repeated fields out of the request body
  unless they are named in \<open>IncludeFields(cleared_fields)\<close>; the compute API's PATCH
  replaces the fields the body carries and keeps the others; \<open>connectedEndpoints\<close> is
  output only. Neither the encoder nor the server is in the repository: both are
  modelled from that documented behaviour. The reachability relation is an
  inductive step relation over \<open>update_run\<close>; its invariants are proved by rule
  induction from the builder's lemmas.
\<close>

section \<open>The PATCH merge\<close>

definition keep_unset :: "'a option \<Rightarrow> 'a option \<Rightarrow> 'a option" where
  "keep_unset new cur = (case new of None \<Rightarrow> cur | Some v \<Rightarrow> Some v)"

definition keep_empty_list :: "string list \<Rightarrow> string \<Rightarrow> 'a list \<Rightarrow> 'a list \<Rightarrow> 'a list" where
  "keep_empty_list cleared field new cur = (if new = [] \<and> field \<notin> set cleared then cur else new)"

definition server_patch :: "service_attachment \<Rightarrow> patch_request \<Rightarrow> string list \<Rightarrow> service_attachment" where
  "server_patch cur p cleared =
     (let r = serviceAttachmentResource p
      in \<lparr>connectedEndpoints = connectedEndpoints cur,
          connectionPreference = keep_unset (connectionPreference r) (connectionPreference cur),
          consumerAcceptLists =
            keep_empty_list cleared ''consumerAcceptLists'' (consumerAcceptLists r) (consumerAcceptLists cur),
          consumerRejectLists =
            keep_empty_list cleared ''consumerRejectLists'' (consumerRejectLists r) (consumerRejectLists cur),
          description = keep_unset (description r) (description cur),
          enableProxyProtocol = keep_unset (enableProxyProtocol r) (enableProxyProtocol cur),
          natSubnets = keep_empty_list cleared ''natSubnets'' (natSubnets r) (natSubnets cur),
          propagatedConnectionLimit = keep_unset (propagatedConnectionLimit r) (propagatedConnectionLimit cur),
          reconcileConnections = keep_unset (reconcileConnections r) (reconcileConnections cur),
          targetService = keep_unset (targetService r) (targetService cur)\<rparr>)"

section \<open>Sequences of update commands\<close>

text \<open>
  From \<open>s0\<close>, each step runs the command of one release track on the stored
  resource with some reference and namespace; a step that issues a PATCH moves to
  the merged resource. Steps that return the old resource or raise leave the state
  as it was.
\<close>

inductive update_reach :: "release_track \<Rightarrow> service_attachment \<Rightarrow> service_attachment \<Rightarrow> bool"
  for track :: release_track where
  reach_refl: "update_reach track s s"
| reach_patch: "update_reach track s0 s \<Longrightarrow> update_run track ref s args = Inr (IssuePatch p cl) \<Longrightarrow>
    update_reach track s0 (server_patch s p cl)"

inductive_cases update_reach_cases: "update_reach track s0 s"

section \<open>Properties\<close>

lemma keep_unset_same [simp]: "keep_unset x x = x"
  by (simp add: keep_unset_def split: option.split)

lemma keep_unset_Some [simp]: "keep_unset (Some v) x = Some v"
  by (simp add: keep_unset_def)

lemma keep_empty_list_same [simp]: "keep_empty_list cl f x x = x"
  by (simp add: keep_empty_list_def)

lemma update_run_IssuePatch:
  "update_run track ref s args = Inr (IssuePatch p cl) \<Longrightarrow>
     modify (support_endpoint_based_security_arg track) args s [] = Inr (Some (serviceAttachmentResource p), cl)"
  by (auto simp: update_run_def run_def get_patch_request_def split: sum.splits option.splits prod.splits)

lemma server_patch_accept_subset:
  "set (consumerAcceptLists (server_patch s p cl)) \<subseteq>
     set (consumerAcceptLists s) \<union> set (consumerAcceptLists (serviceAttachmentResource p))"
  by (auto simp: server_patch_def keep_empty_list_def Let_def)

text \<open>
  The key invariant: a property of accept entries that the track's normalizer
  guarantees and the initial resource has holds in every reachable resource.
\<close>

lemma update_reach_accept_pred:
  assumes "update_reach track s0 s"
    and "\<forall>e\<in>set (consumerAcceptLists s0). P e"
    and "\<forall>ds l. get_consumer_accept_list_based_on_arg (support_endpoint_based_security_arg track) ds = Inr l \<longrightarrow>
           (\<forall>y\<in>set l. P y)"
  shows "\<forall>e\<in>set (consumerAcceptLists s). P e"
  using assms
proof (induction rule: update_reach.induct)
  case (reach_refl s)
  then show ?case by simp
next
  case (reach_patch s0 s ref args p cl)
  have m: "modify (support_endpoint_based_security_arg track) args s [] = Inr (Some (serviceAttachmentResource p), cl)"
    using reach_patch.hyps(2) by (rule update_run_IssuePatch)
  have s: "\<forall>e\<in>set (consumerAcceptLists s). P e"
    using reach_patch.IH reach_patch.prems by blast
  have "\<forall>e\<in>set (consumerAcceptLists (serviceAttachmentResource p)). P e"
    using s reach_patch.prems(2) m by (rule modify_accept_entries_pred)
  with s show ?case using server_patch_accept_subset [of s p cl] by blast
qed

text \<open>
  C26: the GA command never introduces an endpoint-URL accept entry: along any
  sequence of GA updates from a resource without such entries, none appears.
\<close>

theorem update_reach_GA_no_endpoint_entries:
  assumes "update_reach GA s0 s" and "\<forall>e\<in>set (consumerAcceptLists s0). endpointUrl e = None"
  shows "\<forall>e\<in>set (consumerAcceptLists s). endpointUrl e = None"
proof -
  have "\<forall>ds l. get_consumer_accept_list_based_on_arg (support_endpoint_based_security_arg GA) ds = Inr l \<longrightarrow>
      (\<forall>y\<in>set l. endpointUrl y = None)"
    using get_consumer_accept_list_no_endpoint by auto
  from assms this show ?thesis by (rule update_reach_accept_pred)
qed

text \<open>
  C27: an explicitly empty reject list does reach the server: the command issues a
  PATCH with the field on the clear-list, and the merged resource has no reject
  entries.
\<close>

theorem update_run_reject_list_cleared:
  assumes "consumerRejectLists old \<noteq> []"
  shows "\<exists>p cl. update_run track ref old (no_update_args\<lparr>arg_consumer_reject_list := Some []\<rparr>) =
      Inr (IssuePatch p cl) \<and> consumerRejectLists (server_patch old p cl) = []"
proof -
  have "sort (consumerRejectLists old) \<noteq> []"
    using assms by (metis length_0_conv length_sort)
  then have "update_run track ref old (no_update_args\<lparr>arg_consumer_reject_list := Some []\<rparr>) =
      Inr (IssuePatch (get_patch_request ref (old\<lparr>consumerRejectLists := []\<rparr>)) [''consumerRejectLists''])"
    by (simp add: update_run_def run_def modify_def modify_prefix_def modify_step_defs
        modify_accept_list_None modify_remove_obsolete_off)
  moreover have "consumerRejectLists (server_patch old (get_patch_request ref (old\<lparr>consumerRejectLists := []\<rparr>))
      [''consumerRejectLists'']) = []"
    by (simp add: server_patch_def get_patch_request_def keep_empty_list_def Let_def)
  ultimately show ?thesis by blast
qed

text \<open>
  C28: every setting of the description, proxy protocol, reconcile flag and
  propagated connection limit is reachable from any stored resource, by one command
  of any track (or none, when the resource already has it).
\<close>

theorem update_reach_scalar_fields:
  "update_reach track s (s\<lparr>description := Some d, enableProxyProtocol := Some b,
     reconcileConnections := Some c, propagatedConnectionLimit := Some n\<rparr>)"
proof -
  let ?t = "s\<lparr>description := Some d, enableProxyProtocol := Some b,
     reconcileConnections := Some c, propagatedConnectionLimit := Some n\<rparr>"
  let ?a = "no_update_args\<lparr>arg_description := Some d, arg_enable_proxy_protocol := Some b,
     arg_reconcile_connections := Some c, arg_propagated_connection_limit := Some n\<rparr>"
  let ?ref = "\<lparr>ref_project = [], ref_region = [], ref_name = []\<rparr>"
  show ?thesis
  proof (cases "?t = s")
    case True
    then show ?thesis by (simp add: update_reach.reach_refl)
  next
    case False
    then have "update_run track ?ref s ?a = Inr (IssuePatch (get_patch_request ?ref ?t) [])"
      by (cases s) (auto simp: update_run_def run_def modify_def modify_prefix_def modify_step_defs
          modify_accept_list_None modify_remove_obsolete_off get_patch_request_def Let_def)
    moreover have "server_patch s (get_patch_request ?ref ?t) [] = ?t"
      by (cases s) (simp add: server_patch_def get_patch_request_def Let_def)
    ultimately show ?thesis
      using update_reach.reach_patch [OF update_reach.reach_refl] by metis
  qed
qed

subsection \<open>Witnesses\<close>

text \<open>One GA update replacing the accept list of a stored resource.\<close>

lemma update_reach_GA_example:
  "update_reach GA
     (empty_service_attachment\<lparr>consumerAcceptLists :=
        [\<lparr>connectionLimit = Some 1, endpointUrl = None, networkUrl = None, projectIdOrNum = Some ''p1''\<rparr>]\<rparr>)
     (empty_service_attachment\<lparr>consumerAcceptLists :=
        [\<lparr>connectionLimit = Some 4, endpointUrl = None, networkUrl = None, projectIdOrNum = Some ''p2''\<rparr>]\<rparr>)"
proof -
  let ?s0 = "empty_service_attachment\<lparr>consumerAcceptLists :=
        [\<lparr>connectionLimit = Some 1, endpointUrl = None, networkUrl = None, projectIdOrNum = Some ''p1''\<rparr>]\<rparr>"
  let ?r = "empty_service_attachment\<lparr>consumerAcceptLists :=
        [\<lparr>connectionLimit = Some 4, endpointUrl = None, networkUrl = None, projectIdOrNum = Some ''p2''\<rparr>]\<rparr>"
  let ?ref = "\<lparr>ref_project = ''p'', ref_region = ''r'', ref_name = ''n''\<rparr>"
  have h: "update_run GA ?ref ?s0 (no_update_args\<lparr>arg_consumer_accept_list := Some [[(''p2'', PyStr ''4'')]]\<rparr>) =
      Inr (IssuePatch (get_patch_request ?ref ?r) [])"
    by (simp add: update_run_def run_def modify_eval)
  have "server_patch ?s0 (get_patch_request ?ref ?r) [] = ?r"
    by (simp add: server_patch_def get_patch_request_def keep_empty_list_def Let_def empty_service_attachment_def)
  then show ?thesis
    using update_reach.reach_patch [OF update_reach.reach_refl h] by simp
qed

theorem update_reach_GA_no_endpoint_entries_witness:
  "map endpointUrl (consumerAcceptLists (empty_service_attachment\<lparr>consumerAcceptLists :=
        [\<lparr>connectionLimit = Some 4, endpointUrl = None, networkUrl = None, projectIdOrNum = Some ''p2''\<rparr>]\<rparr>)) =
   [None]"
  using update_reach_GA_no_endpoint_entries [OF update_reach_GA_example] by simp

theorem update_run_reject_list_cleared_witness:
  "\<exists>p cl. update_run GA \<lparr>ref_project = ''p'', ref_region = ''r'', ref_name = ''n''\<rparr>
      (empty_service_attachment\<lparr>consumerRejectLists := [''p1'']\<rparr>)
      (no_update_args\<lparr>arg_consumer_reject_list := Some []\<rparr>) = Inr (IssuePatch p cl) \<and>
    consumerRejectLists (server_patch (empty_service_attachment\<lparr>consumerRejectLists := [''p1'']\<rparr>) p cl) = []"
  using update_run_reject_list_cleared [of "empty_service_attachment\<lparr>consumerRejectLists := [''p1'']\<rparr>"] by simp

end
