(* ===== verification/SA_Modify_Spec.thy ===== *)
theory SA_Modify_Spec
  imports SA_Server
begin

text \<open>
  A per-field specification of \<open>_Modify\<close>: each field of the replacement is computed
  from its flag and the old resource alone, the update flag is the disjunction of the
  fields' change tests, and the clear-list names the lists that an explicit empty
  value changed. The builder threads one mutable copy through ten blocks in a fixed
  order; the refinement theorem shows that, with the obsolete-entry pruning off, the
  threading and the order are invisible: no block reads a field another block writes.
\<close>

definition opt_changed :: "'a option \<Rightarrow> 'a option \<Rightarrow> bool" where
  "opt_changed a cur = (a \<noteq> None \<and> a \<noteq> cur)"

definition list_if_changed :: "'a::linorder list option \<Rightarrow> 'a list \<Rightarrow> 'a list" where
  "list_if_changed a cur = (case a of None \<Rightarrow> cur | Some l \<Rightarrow> if sort l \<noteq> sort cur then sort l else cur)"

definition list_changed :: "'a::linorder list option \<Rightarrow> 'a list \<Rightarrow> bool" where
  "list_changed a cur = (case a of None \<Rightarrow> False | Some l \<Rightarrow> sort l \<noteq> sort cur)"

definition preference_spec :: "string option \<Rightarrow> connection_preference option \<Rightarrow> connection_preference option" where
  "preference_spec a cur = (if a = None then cur else get_connection_preference a)"

definition accept_spec ::
  "bool \<Rightarrow> update_args \<Rightarrow> service_attachment \<Rightarrow> sa_error + (consumer_project_limit list \<times> bool)" where
  "accept_spec ebs args old =
     (case arg_consumer_accept_list args of None \<Rightarrow> Inr (consumerAcceptLists old, False)
      | Some ds \<Rightarrow>
          (case get_consumer_accept_list_based_on_arg ebs ds of Inl e \<Rightarrow> Inl e
           | Inr l \<Rightarrow>
               let k = get_project_or_network_or_endpoint_based_on_arg ebs
               in if sort_key k l \<noteq> sort_key k (consumerAcceptLists old)
                  then Inr (sort_key k l, True) else Inr (consumerAcceptLists old, False)))"

definition spec_replacement ::
  "update_args \<Rightarrow> service_attachment \<Rightarrow> consumer_project_limit list \<Rightarrow> service_attachment" where
  "spec_replacement args old acc =
     old\<lparr>targetService := keep_unset (arg_target_service args) (targetService old),
         description := keep_unset (arg_description args) (description old),
         connectionPreference := preference_spec (arg_connection_preference args) (connectionPreference old),
         enableProxyProtocol := keep_unset (arg_enable_proxy_protocol args) (enableProxyProtocol old),
         natSubnets := list_if_changed (arg_nat_subnets args) (natSubnets old),
         consumerRejectLists := list_if_changed (arg_consumer_reject_list args) (consumerRejectLists old),
         consumerAcceptLists := acc,
         reconcileConnections := keep_unset (arg_reconcile_connections args) (reconcileConnections old),
         propagatedConnectionLimit :=
           keep_unset (arg_propagated_connection_limit args) (propagatedConnectionLimit old)\<rparr>"

definition spec_changed :: "update_args \<Rightarrow> service_attachment \<Rightarrow> bool \<Rightarrow> bool" where
  "spec_changed args old acc_changed =
     (arg_target_service args \<noteq> None \<or>
      opt_changed (arg_description args) (description old) \<or>
      (arg_connection_preference args \<noteq> None \<and>
       get_connection_preference (arg_connection_preference args) \<noteq> connectionPreference old) \<or>
      opt_changed (arg_enable_proxy_protocol args) (enableProxyProtocol old) \<or>
      list_changed (arg_nat_subnets args) (natSubnets old) \<or>
      list_changed (arg_consumer_reject_list args) (consumerRejectLists old) \<or>
      acc_changed \<or>
      opt_changed (arg_reconcile_connections args) (reconcileConnections old) \<or>
      opt_changed (arg_propagated_connection_limit args) (propagatedConnectionLimit old))"

definition spec_cleared ::
  "update_args \<Rightarrow> service_attachment \<Rightarrow> consumer_project_limit list \<Rightarrow> bool \<Rightarrow> string list" where
  "spec_cleared args old acc acc_changed =
     (if arg_consumer_reject_list args = Some [] \<and> consumerRejectLists old \<noteq> []
      then [''consumerRejectLists''] else []) @
     (if acc_changed \<and> acc = [] then [''consumerAcceptLists''] else [])"

definition modify_spec ::
  "bool \<Rightarrow> update_args \<Rightarrow> service_attachment \<Rightarrow> sa_error + (service_attachment option \<times> string list)" where
  "modify_spec ebs args old =
     (case accept_spec ebs args old of Inl e \<Rightarrow> Inl e
      | Inr (acc, acc_changed) \<Rightarrow>
          Inr (if spec_changed args old acc_changed then Some (spec_replacement args old acc) else None,
               spec_cleared args old acc acc_changed))"

section \<open>Refinement\<close>

lemma sort_key_eq_Nil_iff: "sort_key f xs = [] \<longleftrightarrow> xs = []" "[] = sort_key f xs \<longleftrightarrow> xs = []"
  by (metis length_0_conv length_sort)+

lemma is_updated_modify_blocks:
  "is_updated (modify_target_service args st) = (is_updated st \<or> arg_target_service args \<noteq> None)"
  "is_updated (modify_description args old st) = (is_updated st \<or> opt_changed (arg_description args) (description old))"
  "is_updated (modify_connection_preference args old st) = (is_updated st \<or>
     (arg_connection_preference args \<noteq> None \<and>
      get_connection_preference (arg_connection_preference args) \<noteq> connectionPreference old))"
  "is_updated (modify_proxy_protocol args old st) =
     (is_updated st \<or> opt_changed (arg_enable_proxy_protocol args) (enableProxyProtocol old))"
  "is_updated (modify_nat_subnets args old st) = (is_updated st \<or> list_changed (arg_nat_subnets args) (natSubnets old))"
  "is_updated (modify_reject_list args old st) =
     (is_updated st \<or> list_changed (arg_consumer_reject_list args) (consumerRejectLists old))"
  "is_updated (modify_reconcile_connections args old st) =
     (is_updated st \<or> opt_changed (arg_reconcile_connections args) (reconcileConnections old))"
  "is_updated (modify_propagated_connection_limit args old st) =
     (is_updated st \<or> opt_changed (arg_propagated_connection_limit args) (propagatedConnectionLimit old))"
  by (auto simp: modify_step_defs opt_changed_def list_changed_def Let_def split: option.split)

lemma modify_accept_list_spec:
  assumes "consumerAcceptLists old = consumerAcceptLists (replacement st)"
  shows "modify_accept_list ebs args old st =
     (case accept_spec ebs args old of Inl e \<Rightarrow> Inl e
      | Inr (acc, ch) \<Rightarrow> Inr (st\<lparr>replacement := (replacement st)\<lparr>consumerAcceptLists := acc\<rparr>,
           is_updated := (is_updated st \<or> ch),
           cleared_fields := cleared_fields st @ (if ch \<and> acc = [] then [''consumerAcceptLists''] else [])\<rparr>))"
  using assms by (auto simp: modify_accept_list_def accept_spec_def Let_def split: option.split sum.split)

lemma reject_cleared_spec:
  "(case arg_consumer_reject_list args of None \<Rightarrow> []
    | Some l \<Rightarrow> if sort l \<noteq> sort (consumerRejectLists old) \<and> sort l = [] then [''consumerRejectLists''] else []) =
   (if arg_consumer_reject_list args = Some [] \<and> consumerRejectLists old \<noteq> []
    then [''consumerRejectLists''] else [])"
  by (auto simp: sort_key_eq_Nil_iff split: option.split)

lemma replacement_modify_spec:
  "replacement (modify_propagated_connection_limit args old (modify_reconcile_connections args old
     ((modify_prefix args old \<lparr>replacement = old, cleared_fields = cl, is_updated = u\<rparr>)\<lparr>replacement :=
        (replacement (modify_prefix args old \<lparr>replacement = old, cleared_fields = cl, is_updated = u\<rparr>))\<lparr>consumerAcceptLists := acc\<rparr>,
        is_updated := u', cleared_fields := cl'\<rparr>))) =
   spec_replacement args old acc"
  by (rule service_attachment.equality)
    (simp_all add: modify_prefix_def modify_step_simps spec_replacement_def keep_unset_def preference_spec_def
      list_if_changed_def split: option.split)

text \<open>
  C29: with the obsolete-entry pruning off, the block-by-block builder implements the
  per-field specification: the same error, the same replacement (or none) and the
  same clear-list. The order of the blocks and the shared copy are invisible.
\<close>

theorem modify_refines_spec:
  assumes "\<not> (ebs \<and> arg_remove_obsolete_endpoint_accept_reject_entries args)"
  shows "modify ebs args old [] = modify_spec ebs args old"
proof -
  let ?st6 = "modify_prefix args old \<lparr>replacement = old, cleared_fields = [], is_updated = False\<rparr>"
  have a6: "consumerAcceptLists old = consumerAcceptLists (replacement ?st6)"
    by (simp add: modify_prefix_def modify_step_simps)
  show ?thesis
  proof (cases "accept_spec ebs args old")
    case (Inl e)
    then show ?thesis
      using modify_accept_list_spec [OF a6] by (simp add: modify_def modify_spec_def)
  next
    case (Inr res)
    obtain acc ch where res: "res = (acc, ch)" by (cases res)
    let ?st7 = "?st6\<lparr>replacement := (replacement ?st6)\<lparr>consumerAcceptLists := acc\<rparr>,
           is_updated := (is_updated ?st6 \<or> ch),
           cleared_fields := cleared_fields ?st6 @ (if ch \<and> acc = [] then [''consumerAcceptLists''] else [])\<rparr>"
    let ?st10 = "modify_propagated_connection_limit args old (modify_reconcile_connections args old ?st7)"
    have m7: "modify_accept_list ebs args old ?st6 = Inr ?st7"
      using modify_accept_list_spec [OF a6] Inr res by simp
    have m: "modify ebs args old [] =
        Inr (if is_updated ?st10 then Some (replacement ?st10) else None, cleared_fields ?st10)"
      using m7 assms by (simp add: modify_def modify_remove_obsolete_off Let_def)
    have u: "is_updated ?st10 = spec_changed args old ch"
      by (simp add: modify_prefix_def is_updated_modify_blocks spec_changed_def)
    have r: "replacement ?st10 = spec_replacement args old acc"
      by (rule replacement_modify_spec)
    have c: "cleared_fields ?st10 = spec_cleared args old acc ch"
      by (simp add: cleared_fields_modify_prefix spec_cleared_def reject_cleared_spec)
    show ?thesis
      using Inr res m u r c by (simp add: modify_spec_def)
  qed
qed

subsection \<open>Witnesses\<close>

theorem modify_refines_spec_witness:
  "modify True (no_update_args\<lparr>arg_description := Some ''d'', arg_consumer_reject_list := Some []\<rparr>)
     (empty_service_attachment\<lparr>consumerRejectLists := [''p1'']\<rparr>) [] =
   modify_spec True (no_update_args\<lparr>arg_description := Some ''d'', arg_consumer_reject_list := Some []\<rparr>)
     (empty_service_attachment\<lparr>consumerRejectLists := [''p1'']\<rparr>)"
  using modify_refines_spec [of True "no_update_args\<lparr>arg_description := Some ''d'', arg_consumer_reject_list := Some []\<rparr>"]
  by simp

end
