(* ===== verification/Api_Key_Hooks.thy ===== *)
theory Api_Key_Hooks
  imports Prelude
begin

text \<open>
  \<open>command_lib/edge_cloud/api_key/hooks.py\<close>: the request hook
  \<open>ConstructServiceAccountName\<close>. When \<open>--service-account\<close> is given it requires
  \<open>--project\<close> and \<open>--location\<close>, builds the full service-account resource name,
  stores it in \<open>request.apiKey.serviceAccountName\<close> (creating the \<open>ApiKey\<close> message
  if the request has none) and deletes the consumed flag from the namespace. The
  namespace and the request are returned updated; each exception is an \<open>Inl\<close>.

  The \<open>service_account\<close> attribute of the calliope namespace has three states: given
  on the command line, registered but not given, or deleted by \<open>delattr\<close>.
  \<open>args.IsSpecified(dest)\<close> (calliope's \<open>parser_extensions.Namespace\<close>, outside the
  repository) raises \<open>UnknownDestinationException\<close> when the namespace has no
  attribute \<open>dest\<close>.
\<close>

datatype ns_attr = AttrGiven string | AttrNotGiven | AttrDeleted

record hook_args =
  hook_service_account :: ns_attr
  hook_project :: "string option"
  hook_location :: "string option"

record api_key =
  serviceAccountName :: "string option"

record api_key_request =
  apiKey :: "api_key option"

datatype hook_error = RequiredArgument string string | UnknownDestination string

text \<open>The f-string of line 54.\<close>

definition service_account_name :: "string \<Rightarrow> string \<Rightarrow> string \<Rightarrow> string" where
  "service_account_name project location sa_id =
     ''projects/'' @ project @ ''/locations/'' @ location @ ''/serviceAccounts/'' @ sa_id"

definition construct_service_account_name ::
  "hook_args \<Rightarrow> api_key_request \<Rightarrow> hook_error + (hook_args \<times> api_key_request)" where
  "construct_service_account_name args request =
     (case hook_service_account args of
        AttrDeleted \<Rightarrow> Inl (UnknownDestination ''service_account'')
      | AttrNotGiven \<Rightarrow> Inr (args, request)
      | AttrGiven sa_id \<Rightarrow>
          (if \<not> py_truthy_str (hook_project args)
           then Inl (RequiredArgument ''--project'' ''The --project flag is required.'')
           else if \<not> py_truthy_str (hook_location args)
           then Inl (RequiredArgument ''--location'' ''The --location flag is required.'')
           else
             let name = service_account_name (the (hook_project args)) (the (hook_location args)) sa_id;
                 key = (case apiKey request of None \<Rightarrow> \<lparr>serviceAccountName = None\<rparr> | Some k \<Rightarrow> k)
             in Inr (args\<lparr>hook_service_account := AttrDeleted\<rparr>,
                     request\<lparr>apiKey := Some (key\<lparr>serviceAccountName := Some name\<rparr>)\<rparr>)))"

section \<open>Properties\<close>

lemma service_account_name_join:
  "service_account_name p l s =
     py_join (CHR ''/'') [''projects'', p, ''locations'', l, ''serviceAccounts'', s]"
  by (simp add: service_account_name_def)

text \<open>
  C18: without \<open>--service-account\<close> the hook changes nothing; with it, a missing or
  empty project is reported first, then a missing or empty location; on a namespace
  whose attribute was already deleted, \<open>IsSpecified\<close> raises.
\<close>

theorem construct_service_account_name_errors:
  "(hook_service_account args = AttrNotGiven \<longrightarrow> construct_service_account_name args req = Inr (args, req)) \<and>
   (hook_service_account args = AttrDeleted \<longrightarrow>
      construct_service_account_name args req = Inl (UnknownDestination ''service_account'')) \<and>
   ((\<exists>s. hook_service_account args = AttrGiven s) \<and> \<not> py_truthy_str (hook_project args) \<longrightarrow>
      construct_service_account_name args req =
        Inl (RequiredArgument ''--project'' ''The --project flag is required.'')) \<and>
   ((\<exists>s. hook_service_account args = AttrGiven s) \<and> py_truthy_str (hook_project args) \<and>
    \<not> py_truthy_str (hook_location args) \<longrightarrow>
      construct_service_account_name args req =
        Inl (RequiredArgument ''--location'' ''The --location flag is required.''))"
  by (auto simp: construct_service_account_name_def)

text \<open>
  C19: with the three values given and free of slashes, the hook succeeds, consumes
  the flag, and the stored name splits back into exactly the project, location and
  service-account id it was built from.
\<close>

theorem construct_service_account_name_roundtrip:
  assumes "hook_service_account args = AttrGiven s" "hook_project args = Some p" "hook_location args = Some l"
    and "p \<noteq> []" "l \<noteq> []"
    and "CHR ''/'' \<notin> set p" "CHR ''/'' \<notin> set l" "CHR ''/'' \<notin> set s"
  shows "\<exists>args' req' k. construct_service_account_name args req = Inr (args', req') \<and>
     hook_service_account args' = AttrDeleted \<and> apiKey req' = Some k \<and>
     map_option (py_split (CHR ''/'')) (serviceAccountName k) =
       Some [''projects'', p, ''locations'', l, ''serviceAccounts'', s]"
proof -
  have "py_split (CHR ''/'') (service_account_name p l s) = [''projects'', p, ''locations'', l, ''serviceAccounts'', s]"
    unfolding service_account_name_join by (rule py_split_py_join) (use assms(6-8) in auto)
  then show ?thesis
    using assms(1-5) by (simp add: construct_service_account_name_def)
qed

section \<open>Witnesses\<close>

theorem construct_service_account_name_errors_witness:
  "construct_service_account_name
     \<lparr>hook_service_account = AttrGiven ''sa1'', hook_project = Some [], hook_location = Some ''l''\<rparr>
     \<lparr>apiKey = None\<rparr> = Inl (RequiredArgument ''--project'' ''The --project flag is required.'')"
  using construct_service_account_name_errors
    [of "\<lparr>hook_service_account = AttrGiven ''sa1'', hook_project = Some [], hook_location = Some ''l''\<rparr>"
        "\<lparr>apiKey = None\<rparr>"]
  by simp

theorem construct_service_account_name_roundtrip_witness:
  "\<exists>args' req' k. construct_service_account_name
       \<lparr>hook_service_account = AttrGiven ''sa1'', hook_project = Some ''p1'', hook_location = Some ''us''\<rparr>
       \<lparr>apiKey = None\<rparr> = Inr (args', req') \<and>
     hook_service_account args' = AttrDeleted \<and> apiKey req' = Some k \<and>
     map_option (py_split (CHR ''/'')) (serviceAccountName k) =
       Some [''projects'', ''p1'', ''locations'', ''us'', ''serviceAccounts'', ''sa1'']"
  using construct_service_account_name_roundtrip
    [of "\<lparr>hook_service_account = AttrGiven ''sa1'', hook_project = Some ''p1'', hook_location = Some ''us''\<rparr>"
        "''sa1''" "''p1''" "''us''" "\<lparr>apiKey = None\<rparr>"]
  by simp

end
