(* ===== verification/Kms_Delete.thy ===== *)
theory Kms_Delete
  imports Prelude
begin

text \<open>
  \<open>surface/kms/keys/delete.py\<close> and \<open>surface/kms/keys/versions/delete.py\<close>: each
  \<open>Run\<close> parses the key (or key-version) resource from the flags, builds a delete
  request of the message class of its collection whose \<open>name\<close> is the resource's
  relative name, and calls \<open>Delete\<close> on that collection of the generated client.
  Here \<open>Run\<close> returns the call it makes: the collection and the request. The
  relative names follow the Cloud KMS collection paths, which live in the resource
  registry and not in the repository (modelled from that template); so does the
  server's resolution of a delete call to the resource it deletes.
\<close>

record crypto_key_ref =
  key_project :: string
  key_location :: string
  key_ring :: string
  crypto_key :: string

record crypto_key_version_ref =
  version_key :: crypto_key_ref
  crypto_key_version :: string

datatype kms_collection =
    projects_locations_keyRings_cryptoKeys
  | projects_locations_keyRings_cryptoKeys_cryptoKeyVersions

datatype kms_delete_request =
    CloudkmsProjectsLocationsKeyRingsCryptoKeysDeleteRequest string
  | CloudkmsProjectsLocationsKeyRingsCryptoKeysCryptoKeyVersionsDeleteRequest string

record kms_delete_call =
  call_collection :: kms_collection
  call_request :: kms_delete_request

definition crypto_key_segments :: "crypto_key_ref \<Rightarrow> string list" where
  "crypto_key_segments r =
     [''projects'', key_project r, ''locations'', key_location r,
      ''keyRings'', key_ring r, ''cryptoKeys'', crypto_key r]"

definition crypto_key_version_segments :: "crypto_key_version_ref \<Rightarrow> string list" where
  "crypto_key_version_segments v =
     crypto_key_segments (version_key v) @ [''cryptoKeyVersions'', crypto_key_version v]"

definition crypto_key_relative_name :: "crypto_key_ref \<Rightarrow> string" where
  "crypto_key_relative_name r = py_join (CHR ''/'') (crypto_key_segments r)"

definition crypto_key_version_relative_name :: "crypto_key_version_ref \<Rightarrow> string" where
  "crypto_key_version_relative_name v = py_join (CHR ''/'') (crypto_key_version_segments v)"

definition kms_key_delete_run :: "crypto_key_ref \<Rightarrow> kms_delete_call" where
  "kms_key_delete_run key_ref =
     \<lparr>call_collection = projects_locations_keyRings_cryptoKeys,
      call_request = CloudkmsProjectsLocationsKeyRingsCryptoKeysDeleteRequest
                       (crypto_key_relative_name key_ref)\<rparr>"

definition kms_key_version_delete_run :: "crypto_key_version_ref \<Rightarrow> kms_delete_call" where
  "kms_key_version_delete_run version_ref =
     (let req = CloudkmsProjectsLocationsKeyRingsCryptoKeysCryptoKeyVersionsDeleteRequest
                  (crypto_key_version_relative_name version_ref)
      in \<lparr>call_collection = projects_locations_keyRings_cryptoKeys_cryptoKeyVersions,
          call_request = req\<rparr>)"

text \<open>Reading a relative name back, as the server resolves it.\<close>

fun parse_crypto_key_segments :: "string list \<Rightarrow> crypto_key_ref option" where
  "parse_crypto_key_segments [pr, p, lo, l, kr, k, ck, c] =
     (if pr = ''projects'' \<and> lo = ''locations'' \<and> kr = ''keyRings'' \<and> ck = ''cryptoKeys''
      then Some \<lparr>key_project = p, key_location = l, key_ring = k, crypto_key = c\<rparr> else None)"
| "parse_crypto_key_segments _ = None"

fun parse_crypto_key_version_segments :: "string list \<Rightarrow> crypto_key_version_ref option" where
  "parse_crypto_key_version_segments [pr, p, lo, l, kr, k, ck, c, cv, v] =
     (if cv = ''cryptoKeyVersions''
      then map_option (\<lambda>r. \<lparr>version_key = r, crypto_key_version = v\<rparr>)
             (parse_crypto_key_segments [pr, p, lo, l, kr, k, ck, c])
      else None)"
| "parse_crypto_key_version_segments _ = None"

definition parse_crypto_key_name :: "string \<Rightarrow> crypto_key_ref option" where
  "parse_crypto_key_name n = parse_crypto_key_segments (py_split (CHR ''/'') n)"

definition parse_crypto_key_version_name :: "string \<Rightarrow> crypto_key_version_ref option" where
  "parse_crypto_key_version_name n = parse_crypto_key_version_segments (py_split (CHR ''/'') n)"

text \<open>
  What a delete call reaches: a collection accepts only its own request class (the
  generated client rejects any other) and resolves the name against its path
  template; anything else reaches nothing.
\<close>

datatype kms_target = KeyTarget crypto_key_ref | VersionTarget crypto_key_version_ref

fun kms_delete_target :: "kms_delete_call \<Rightarrow> kms_target option" where
  "kms_delete_target \<lparr>call_collection = projects_locations_keyRings_cryptoKeys,
       call_request = CloudkmsProjectsLocationsKeyRingsCryptoKeysDeleteRequest n\<rparr> =
     map_option KeyTarget (parse_crypto_key_name n)"
| "kms_delete_target \<lparr>call_collection = projects_locations_keyRings_cryptoKeys_cryptoKeyVersions,
       call_request = CloudkmsProjectsLocationsKeyRingsCryptoKeysCryptoKeyVersionsDeleteRequest n\<rparr> =
     map_option VersionTarget (parse_crypto_key_version_name n)"
| "kms_delete_target _ = None"

section \<open>Properties\<close>

definition slash_free_key :: "crypto_key_ref \<Rightarrow> bool" where
  "slash_free_key r =
     (\<forall>x\<in>set [key_project r, key_location r, key_ring r, crypto_key r]. CHR ''/'' \<notin> set x)"

lemma py_split_crypto_key_relative_name:
  "slash_free_key r \<Longrightarrow> py_split (CHR ''/'') (crypto_key_relative_name r) = crypto_key_segments r"
  unfolding crypto_key_relative_name_def
  by (rule py_split_py_join) (auto simp: crypto_key_segments_def slash_free_key_def)

lemma py_split_crypto_key_version_relative_name:
  "slash_free_key (version_key v) \<Longrightarrow> CHR ''/'' \<notin> set (crypto_key_version v) \<Longrightarrow>
     py_split (CHR ''/'') (crypto_key_version_relative_name v) = crypto_key_version_segments v"
  unfolding crypto_key_version_relative_name_def
  by (rule py_split_py_join)
    (auto simp: crypto_key_version_segments_def crypto_key_segments_def slash_free_key_def)

text \<open>
  C20: each delete command reaches exactly the resource named on the command line:
  the key delete deletes that key, the key-version delete that version and never
  the whole key, provided no component of the name contains a slash.
\<close>

theorem kms_delete_runs_target:
  assumes "slash_free_key r" and "slash_free_key (version_key v)"
    and "CHR ''/'' \<notin> set (crypto_key_version v)"
  shows "kms_delete_target (kms_key_delete_run r) = Some (KeyTarget r) \<and>
         kms_delete_target (kms_key_version_delete_run v) = Some (VersionTarget v)"
  using assms
  by (simp add: kms_key_delete_run_def kms_key_version_delete_run_def parse_crypto_key_name_def
      parse_crypto_key_version_name_def py_split_crypto_key_relative_name
      py_split_crypto_key_version_relative_name crypto_key_version_segments_def crypto_key_segments_def)

section \<open>Witnesses\<close>

theorem kms_delete_runs_target_witness:
  "kms_delete_target (kms_key_delete_run
      \<lparr>key_project = ''p'', key_location = ''us-east1'', key_ring = ''fellowship'', crypto_key = ''frodo''\<rparr>) =
     Some (KeyTarget \<lparr>key_project = ''p'', key_location = ''us-east1'', key_ring = ''fellowship'',
                      crypto_key = ''frodo''\<rparr>) \<and>
   kms_delete_target (kms_key_version_delete_run
      \<lparr>version_key = \<lparr>key_project = ''p'', key_location = ''us-east1'', key_ring = ''fellowship'',
                       crypto_key = ''frodo''\<rparr>, crypto_key_version = ''9''\<rparr>) =
     Some (VersionTarget \<lparr>version_key = \<lparr>key_project = ''p'', key_location = ''us-east1'',
                       key_ring = ''fellowship'', crypto_key = ''frodo''\<rparr>, crypto_key_version = ''9''\<rparr>)"
  using kms_delete_runs_target
    [of "\<lparr>key_project = ''p'', key_location = ''us-east1'', key_ring = ''fellowship'', crypto_key = ''frodo''\<rparr>"
        "\<lparr>version_key = \<lparr>key_project = ''p'', key_location = ''us-east1'', key_ring = ''fellowship'',
                       crypto_key = ''frodo''\<rparr>, crypto_key_version = ''9''\<rparr>"]
  by (simp add: slash_free_key_def)

end
