(* ===== verification/Spec2Isabelle.thy ===== *)
theory Spec2Isabelle
  imports SA_Modify_Spec Api_Key_Hooks Kms_Delete
begin

text \<open>
  \<^bold>\<open>A verification library for the service-attachment update command, the edge-cloud
  API-key hook and the KMS delete commands.\<close>

  \<^bold>\<open>The program.\<close> The sources are command handlers of a cloud CLI. The only
  component with logic of its own is the service-attachment update command:
  \<^item> \<open>command_lib/compute/service_attachments/service_attachments_utils.py\<close> resolves
    the connection preference (\<open>GetConnectionPreference\<close>), turns the
    \<open>--consumer-accept-list\<close> dicts into accept-list entries
    (\<open>GetConsumerAcceptList\<close> without and \<open>...WithEndpointBasedSecurity\<close> with
    endpoint URLs), extracts connected-endpoint ids (\<open>GetConnectedEndpointIds\<close>) and
    prunes accept and reject entries whose endpoint is no longer connected
    (\<open>CleanObsoleteAcceptedEndpointUrls\<close>, \<open>CleanObsoleteRejectedEndpointUrls\<close>),
    keeping the \<open>cleared_fields\<close> list that forces empty repeated fields into the
    patch;
  \<^item> \<open>surface/compute/service_attachments/update.py\<close> (\<open>UpdateHelper\<close>) copies the
    fetched resource, applies each given flag in a fixed order (\<open>_Modify\<close>), and
    either returns the old resource or issues a PATCH inside
    \<open>IncludeFields(cleared_fields)\<close> (\<open>Run\<close>); the GA track runs it without,
    BETA and ALPHA with endpoint-based security.
  \<^item> \<open>command_lib/edge_cloud/api_key/hooks.py\<close> (\<open>ConstructServiceAccountName\<close>)
    is a request hook: it checks \<open>--project\<close> and \<open>--location\<close>, writes the full
    service-account name into the request and consumes the flag;
  \<^item> \<open>surface/kms/keys/delete.py\<close> and \<open>surface/kms/keys/versions/delete.py\<close>
    (\<open>Run\<close>) build a delete request of their collection's message class, named
    by the key's or key version's relative resource name, and call \<open>Delete\<close> on
    that collection.
  The three parts share no state; they share the string builtins of the prelude.

  \<^bold>\<open>Theories.\<close>
  \<^item> \<open>Prelude\<close>: the Python builtins the code calls, as executable HOL functions:
    substring \<open>in\<close> (\<open>py_in\<close>, shown equal to \<open>sublist\<close>), \<open>rstrip\<close>,
    \<open>split\<close>/\<open>join\<close> with their roundtrip, \<open>[-1]\<close>, truthiness of optional
    strings and of dynamically typed values (\<open>py_value\<close>: \<open>None\<close>, int or str),
    \<open>int(x)\<close> (\<open>py_int\<close>: a base-10 literal parser raising \<open>TypeError\<close> on
    \<open>None\<close> and \<open>ValueError\<close> on a bad literal), and \<open>map_err\<close>, a loop that
    stops at the first raise.
  \<^item> \<open>Compute_Messages\<close>: the generated messages as records
    (\<open>service_attachment\<close>, \<open>consumer_project_limit\<close>, \<open>connected_endpoint\<close>) and
    the parsed flags (\<open>update_args\<close>, \<open>None\<close> for a flag not given).
  \<^item> \<open>SA_Utils\<close>: one definition per function of the utils file, the error type
    \<open>sa_error\<close> (the \<open>ValueError\<close>s, the errors of \<open>int(conn_limit)\<close>, and
    \<open>ConflictingArgumentsException\<close>), and their properties: when each normalizer
    succeeds and what it emits (C7-C10), the endpoint id of a URL (C11), and the
    cleaners' behaviour and clear-list discipline against an abstract filter
    specification (C12, C13), and the equivalence of the two normalizers on items
    with a truthy limit and no endpoint URL (C21).
  \<^item> \<open>SA_Update\<close>: \<open>_Modify\<close> as ten block functions on the record
    \<open>modify_state\<close> (replacement, cleared_fields, is_updated) composed by
    \<open>modify\<close>; \<open>_RemoveObsoleteEndpointEntries\<close>, \<open>_GetPatchRequest\<close>,
    \<open>Run\<close> (\<open>run\<close>, returning the request it would send) and the release
    tracks (\<open>update_run\<close>). Properties: the frame property (C1), the
    \<open>is_updated\<close> overwrite (C2), the conflicting-flags error (C3), no flags means
    no request (C4), reorder invariance of the compared lists (C5, C6), a
    duplicate-free clear-list (C14), explicit clearing (C15), the uncompared target
    service (C16) and the GA track's errors (C17).
  \<^item> \<open>SA_Command\<close>: the rest of the command around \<open>_Modify\<close>: the flags
    \<open>Args\<close> registers per track (\<open>update_helper_args\<close>, \<open>update_command_args\<close>)
    and the namespaces such a parser can produce (\<open>parsed_by\<close>), the GET request
    of \<open>_GetOldResource\<close>, the self-links of \<open>_GetNatSubnets\<close>, and
    \<open>update_helper_run\<close>, \<open>Run\<close> composed with the client's GET (a function
    parameter). Properties: GA and BETA agree on GA namespaces away from endpoint
    entries (C22), \<open>natSubnets\<close> is never put on the clear-list (C23), the
    clear-list has at most two entries (C24), and the builder keeps accept entries
    well formed (C25).
  \<^item> \<open>SA_Server\<close>: the stored resource across commands. \<open>server_patch\<close> is the
    PATCH merge (unset fields and empty lists off the clear-list are left out of the
    body and keep their stored value), and \<open>update_reach\<close> is an inductive step
    relation: from a resource, any sequence of update commands of one track, each
    issuing a PATCH that is merged in. Properties: by rule induction, GA never
    introduces an endpoint entry (C26); end to end at the server, an explicit empty
    reject list is cleared (C27), and any setting of the four scalar fields is
    reachable in one command (C28).
  \<^item> \<open>SA_Modify_Spec\<close>: a per-field specification of \<open>_Modify\<close>
    (\<open>modify_spec\<close>: each field from its flag and the old resource alone, the
    update flag as a disjunction of change tests, the clear-list from the explicit
    empty lists) and the refinement theorem that the block-by-block builder
    implements it when pruning is off (C29).
  \<^item> \<open>Api_Key_Hooks\<close>: the argument namespace, the \<open>ApiKey\<close> request and the hook
    \<open>construct_service_account_name\<close>, returning the namespace and request updated
    or an \<open>Inl\<close> of \<open>hook_error\<close>. The namespace attribute \<open>service_account\<close> is
    given, not given, or deleted (\<open>ns_attr\<close>): \<open>delattr\<close> deletes it, and
    calliope's \<open>IsSpecified\<close> raises on a deleted attribute. Properties: the error
    order (C18) and the split/join roundtrip of the stored name (C19).
  \<^item> \<open>Kms_Delete\<close>: key and key-version references as records, their relative names
    (\<open>py_join\<close> of the collection path segments), the two \<open>Run\<close>s
    (\<open>kms_key_delete_run\<close>, \<open>kms_key_version_delete_run\<close>) returning the call
    they make (the collection and the request of its message class), a parser of
    relative names, and \<open>kms_delete_target\<close>, the resource a delete call reaches
    (a collection takes only its own request class and resolves the name against its
    path template). Property: each command reaches exactly the key or the version
    named on the command line (C20).
  Each theorem with a hypothesis has a \<open>_witness\<close> theorem that applies it to a
  concrete resource and flag set evaluated by \<open>simp\<close>.

  \<^bold>\<open>Modelling choices.\<close> Messages are immutable records; in-place mutation of the
  copy and of \<open>cleared_fields\<close> is explicit state passing. Every raise is an
  \<open>Inl\<close> of \<open>sa_error\<close>. Python ints are \<open>int\<close>; no loop is unbounded (every
  loop runs over a finite list), so there is no fuel. Python's \<open>sorted\<close> is
  \<open>sort\<close>/\<open>sort_key\<close> (both stable) over the lexicographic orders of
  \<open>List_Lexorder\<close>, \<open>Option_ord\<close> and \<open>Product_Lexorder\<close>; Python raises
  \<open>TypeError\<close> when a sort compares \<open>None\<close> with a value, which the model orders
  \<open>None\<close> first instead (see the findings): the accept-list sort keys of
  \<open>_Modify\<close> are pairs of an optional identifier and an optional limit, and the
  model agrees with Python wherever every key has both, which is what the
  normalizers emit; C17 assumes it of the old resource's entries. A dict flag
  value is an association list with distinct keys, iterated in sorted key order
  (\<open>sort_key fst\<close>: with distinct keys the item tuples compare by key). Repeated
  message fields are lists: apitools never returns \<open>None\<close> for them, so the
  code's \<open>is None\<close> tests on \<open>natSubnets\<close>, \<open>consumerRejectLists\<close> and
  \<open>consumerAcceptLists\<close> are constantly false and are not modelled. A connection
  limit in an accept-list dict is a \<open>py_value\<close>, since the flag's parser is
  outside the repository: \<open>None\<close> for a key given alone, or an int or the raw string.
  The basic normalizer passes it to \<open>int()\<close>; the extended one tests its
  truthiness first, so \<open>None\<close>, \<open>0\<close> and \<open>''\<close> count as absent, while the string
  \<open>'0'\<close> is truthy and becomes the limit 0.

  The flag definitions (\<open>flags.Add...\<close>) live outside the repository: \<open>Args\<close> is
  modelled as the list of the arguments it adds, and a parsed namespace as one
  that sets only registered flags. The subnet self-link follows the compute
  collection path, modelled from its template.

  The server side of a PATCH (apitools' encoding under \<open>IncludeFields\<close> and the
  compute API's merge) is outside the repository and modelled from its documented
  behaviour; \<open>connectedEndpoints\<close> is output only and never changes.

  No loop of the sources is unbounded: every loop runs over a finite list and is
  structural recursion or a library combinator, so no definition needs fuel and
  no termination argument beyond the structural one; the command has no
  concurrency, so there is no liveness property beyond reachability (C28).

  \<^bold>\<open>Not modelled.\<close> Resource-name resolution (\<open>ResolveAsResource\<close>, whose
  result is an input: the service-attachment reference and the resolved subnet
  references), the HTTP transport behind \<open>MakeRequests\<close> (the GET is a function
  parameter, its failures are not modelled) and the HTTP errors a PATCH may
  return; these are the generated client and the CLI
  framework. Module imports, decorators and the help texts (\<open>_DetailedHelp\<close>) carry
  no behaviour. The relative
  names of KMS resources come from the resource registry, not from the repository:
  they are modelled from its collection path template, and the name round trips
  assume that no id contains a slash (a slash in an id would read back as extra
  path segments).
\<close>

end
